theory Spec2Isabelle
  imports Main "HOL-Library.Char_ord" "HOL-Library.List_Lexorder" "HOL-Library.Word"
begin

section \<open>Data model (api/v1alpha1)\<close>

text \<open>
  Go strings are byte sequences and are modelled as \<open>string\<close>. Go \<open>int\<close> is modelled
  as \<open>int\<close>: the only arithmetic the controller does on it is \<open>retries + 1\<close> and
  \<open>processed + 1\<close>. A \<open>metav1.Time\<close> is an instant, modelled as a natural number; the
  zero value \<open>metav1.Time{}\<close> is \<open>0\<close>. A Go pointer field is an \<open>option\<close>.
\<close>

type_synonym Time = nat

datatype error = Error string | Panic

datatype BundleState = BundleStateSingle | BundleStateOverlap

abbreviation PhaseIdle :: string where "PhaseIdle \<equiv> ''Idle''"
abbreviation PhaseDetecting :: string where "PhaseDetecting \<equiv> ''Detecting''"
abbreviation PhaseDryRun :: string where "PhaseDryRun \<equiv> ''DryRun''"
abbreviation PhaseRollingCP :: string where "PhaseRollingCP \<equiv> ''RollingCP''"
abbreviation PhaseRollingDP :: string where "PhaseRollingDP \<equiv> ''RollingDP''"
abbreviation PhaseSucceeded :: string where "PhaseSucceeded \<equiv> ''Succeeded''"
abbreviation PhaseFailed :: string where "PhaseFailed \<equiv> ''Failed''"

abbreviation ReasonSecretsDiverged :: string where "ReasonSecretsDiverged \<equiv> ''SecretsDiverged''"
abbreviation ReasonMaxRetriesExceeded :: string where
  "ReasonMaxRetriesExceeded \<equiv> ''ReasonMaxRetriesExceeded''"
abbreviation ReasonCPRestarting :: string where "ReasonCPRestarting \<equiv> ''ControlPlaneRestarting''"
abbreviation ReasonCPReady :: string where "ReasonCPReady \<equiv> ''ControlPlaneReady''"
abbreviation ReasonDPBatchRestarting :: string where
  "ReasonDPBatchRestarting \<equiv> ''DataPlaneBatchRestarting''"
abbreviation ReasonDPThresholdReached :: string where
  "ReasonDPThresholdReached \<equiv> ''DataPlaneThresholdReached''"
abbreviation ReasonRotationFailed :: string where "ReasonRotationFailed \<equiv> ''RotationFailed''"
abbreviation ReasonDryRun :: string where "ReasonDryRun \<equiv> ''DryRunCompleted''"

record WorkRef =
  refKind :: string
  refNamespace :: string
  refName :: string

record ProgressStatus =
  ControlPlaneReady :: bool
  DataPlanePercent :: int

record TrustStatus =
  TrustBundleState :: "BundleState option"
  CurrentFP :: string
  PreviousFP :: string

record RolloutCursor =
  PlanHash :: string
  Next :: int
  Total :: int
  LastDone :: "WorkRef option"

record RetryStatus =
  Count :: int
  LastError :: string
  LastFailed :: "WorkRef option"
  LastErrorTime :: "Time option"

record LinkerdTrustRotationStatus =
  Phase :: "string option"
  Reason :: "string option"
  Message :: "string option"
  StartedAt :: "Time option"
  LastUpdated :: "Time option"
  CompletionTime :: "Time option"
  Progress :: "ProgressStatus option"
  Trust :: "TrustStatus option"
  Retries :: "RetryStatus option"
  Cursor :: "RolloutCursor option"
  DryRunOutput :: string

record AnnotationBumpOptions =
  OptBumpAnnotationKey :: string
  OptBumpAnnotationValue :: string

record TargetScope =
  KindType :: string
  AllowedNamespaces :: "string list"
  RolloutStrategy :: string
  APIGroup :: string
  ScopeKind :: string
  Version :: string
  AnnotationBump :: "AnnotationBumpOptions option"

text \<open>
  The spec, with the nested structs \<open>Linkerd\<close>, \<open>Trigger\<close>,
  \<open>Rollout.TargetAnnotationSelector\<close> and \<open>Protection\<close> flattened. A
  \<open>metav1.Duration\<close> is a signed number of nanoseconds.
\<close>

record LinkerdTrustRotationSpec =
  LinkerdNamespace :: string
  TrustRootsConfigMap :: string
  TrustAnchorSecret :: string
  PreviousTrustAnchorSecret :: string
  BootstrapPreviousSecret :: bool
  OnTrustRootsConfigMapChange :: bool
  OnTrustAnchorSecretsDiff :: bool
  SelectorKey :: string
  SelectorValue :: string
  Targets :: "TargetScope list"
  RunLinkerdCheckProxy :: bool
  LinkerdCheckProxyImage :: string
  BeforeRolloutDelay :: "int option"
  RetriggerRolloutAfterCleanup :: bool
  HoldAfterCleanup :: "int option"
  MaxRolloutFailures :: int
  DryRun :: bool

section \<open>Cluster objects\<close>

text \<open>
  A typed workload (Deployment, StatefulSet or DaemonSet) with the fields the controller
  reads: its identity, the pod template's annotations (a Go map, \<open>None\<close> when nil), the
  label selector (kept as written), and \<open>ResourceVersion\<close> standing for the rest of
  the snapshot, which the controller copies but never inspects.
\<close>

record Workload =
  objNamespace :: string
  objName :: string
  ResourceVersion :: string
  TemplateAnnotations :: "(string \<rightharpoonup> string) option"
  Selector :: string

text \<open>
  A schemaless object: \<open>Unstructured.Object\<close> is a \<open>map[string]any\<close>, here a list of
  key-value pairs read with \<open>map_of\<close>.
\<close>

datatype jv =
    JString string
  | JInt int
  | JBool bool
  | JNull
  | JList "jv list"
  | JMap "(string \<times> jv) list"

type_synonym Unstructured = "(string \<times> jv) list"

record Pod =
  podNamespace :: string
  podName :: string
  DeletionTimestamp :: "Time option"
  PodPhase :: string
  Conditions :: "(string \<times> string) list"

record PemBlock =
  BlockType :: string
  BlockBytes :: string

record Certificate =
  Raw :: string

datatype 'a ApiResult = ApiOK 'a | ApiNotFound string | ApiError string

datatype PollEvent = Cancelled string | Polled "Pod ApiResult"

record SecretResult =
  CreatedPrevious :: bool
  SecretCurrentFP :: string
  SecretPreviousFP :: string
  Diverged :: bool

section \<open>The outside world\<close>

text \<open>
  Every interaction with the outside (a clock read, an API call) is numbered; \<open>calls\<close>
  counts them. The environment answers the \<open>n\<close>-th interaction, so any sequence of
  answers is a possible environment. \<open>trace\<close> records the writes the controller
  issued, in order; \<open>Status\<close> is \<open>obj.Status\<close>, the status held in memory.
\<close>

datatype Action =
    StatusPatch LinkerdTrustRotationStatus
  | Event string string string
  | DeleteSecret string string string "int option"
  | PatchTemplateAnnotation string string string string string
  | PatchMetadataAnnotation string string string string
  | DeletePod string string string "int option"
  | ObservePod string string "Pod ApiResult"

record World =
  Status :: LinkerdTrustRotationStatus
  calls :: nat
  trace :: "Action list"

record StatusEnv =
  timeNow :: "nat \<Rightarrow> Time"
  statusPatchErr :: "nat \<Rightarrow> string option"

text \<open>
  The answers of the cluster and of the Go libraries. Those of the cluster are indexed by
  the number of the interaction. The polling waiters, the proxy-check job and the secret
  synchronizer are taken whole, as what they return. \<open>podPolls\<close> is what a ticker of the
  given period sees of a pod until the given timeout passes: one event per tick.
  \<open>pemDecode\<close> answers with the block found and the number of bytes it consumed, less
  one: \<open>pem.Decode\<close> returns a suffix of its input, shorter when a block was found.
\<close>

record Env = StatusEnv +
  listWorkloads :: "nat \<Rightarrow> string \<Rightarrow> string \<Rightarrow> Workload list ApiResult"
  listCustomResources :: "nat \<Rightarrow> string \<times> string \<times> string \<Rightarrow> string \<Rightarrow> Unstructured list ApiResult"
  listControlPlane :: "nat \<Rightarrow> string \<Rightarrow> Workload list ApiResult"
  listPods :: "nat \<Rightarrow> string \<Rightarrow> string \<Rightarrow> Pod list ApiResult"
  writeResult :: "nat \<Rightarrow> Action \<Rightarrow> unit ApiResult"
  waitRolledOut :: "nat \<Rightarrow> string \<Rightarrow> string \<Rightarrow> string \<Rightarrow> string option"
  runLinkerdCheckJob :: "nat \<Rightarrow> string \<Rightarrow> string \<Rightarrow> string \<Rightarrow> string \<Rightarrow> string option"
  podPolls :: "nat \<Rightarrow> nat \<Rightarrow> nat \<Rightarrow> string \<Rightarrow> string \<Rightarrow> PollEvent list"
  ensureTrustSecrets :: "nat \<Rightarrow> string + SecretResult"
  getConfigMap :: "nat \<Rightarrow> string \<Rightarrow> string \<Rightarrow> (string \<rightharpoonup> string) ApiResult"
  waitCancelled :: "nat \<Rightarrow> string option"
  newRequirementErr :: "string \<Rightarrow> string option"
  labelSelectorAsSelector :: "string \<Rightarrow> string + string"
  pemDecode :: "string \<Rightarrow> (PemBlock \<times> nat) option"
  x509ParseCertificate :: "string \<Rightarrow> string + Certificate"
  sha256Sum :: "string \<Rightarrow> int list"
  formatRFC3339 :: "Time \<Rightarrow> string"
  yamlMarshal :: "(string \<times> string \<times> string \<times> string) list \<Rightarrow> string + string"

definition readClock :: "('e StatusEnv_scheme) \<Rightarrow> World \<Rightarrow> Time \<times> World" where
  "readClock env w = (timeNow env (calls w), w\<lparr>calls := calls w + 1\<rparr>)"

section \<open>Status recorder (internal/status)\<close>

text \<open>
  \<open>statusCmpOptions\<close>: \<open>cmp.Equal\<close> with \<open>LastUpdated\<close> ignored. The status has no
  slice or map, so \<open>EquateEmpty\<close> changes nothing; pointers are compared through
  their targets, times as instants.
\<close>

definition statusEqual :: "LinkerdTrustRotationStatus \<Rightarrow> LinkerdTrustRotationStatus \<Rightarrow> bool" where
  "statusEqual before after \<longleftrightarrow> before\<lparr>LastUpdated := None\<rparr> = after\<lparr>LastUpdated := None\<rparr>"

text \<open>
  \<open>Patch\<close>: the mutation runs on a copy; an equal copy returns without a write. Otherwise
  \<open>LastUpdated\<close> is stamped, the copy becomes \<open>obj.Status\<close>, and the status
  subresource is patched. The assignment precedes the API call, so a failed patch leaves
  the mutated status in memory; a successful one is taken to leave it as assigned.
\<close>

definition Patch :: "('e StatusEnv_scheme) \<Rightarrow>
    (LinkerdTrustRotationStatus \<Rightarrow> LinkerdTrustRotationStatus) \<Rightarrow> World \<Rightarrow> error option \<times> World" where
  "Patch env mutate w =
     (let before = Status w; after = mutate before in
      if statusEqual before after then (None, w)
      else
        (case readClock env w of (now, w1) \<Rightarrow>
           let after' = after\<lparr>LastUpdated := Some now\<rparr>;
               w2 = w1\<lparr>Status := after'\<rparr>
           in (map_option Error (statusPatchErr env (calls w2)),
               w2\<lparr>calls := calls w2 + 1, trace := trace w2 @ [StatusPatch after']\<rparr>)))"

definition SetPhase :: "('e StatusEnv_scheme) \<Rightarrow> string option \<Rightarrow> string option \<Rightarrow> string option \<Rightarrow>
    World \<Rightarrow> error option \<times> World" where
  "SetPhase env phase reason message =
     Patch env (\<lambda>st. st\<lparr>Phase := phase, Reason := reason, Message := message\<rparr>)"

text \<open>
  \<open>calcPercent\<close> rounds \<open>100 * current / total\<close> to the nearest integer in floating
  point; on the clamped, non-negative operands that is the integer below.
\<close>

definition calcPercent :: "int \<Rightarrow> int \<Rightarrow> int" where
  "calcPercent current tot =
     (if tot \<le> 0 then 0
      else let c0 = (if current < 0 then 0 else current);
               c = (if c0 > tot then tot else c0);
               p = (200 * c + tot) div (2 * tot)
           in if p < 0 then 0 else if p > 100 then 100 else p)"

definition SetProgress :: "('e StatusEnv_scheme) \<Rightarrow> bool \<Rightarrow> int option \<Rightarrow> int option \<Rightarrow>
    World \<Rightarrow> error option \<times> World" where
  "SetProgress env cpReady current tot =
     (let percent = (case (current, tot) of
                       (Some c, Some t) \<Rightarrow> calcPercent c t
                     | _ \<Rightarrow> 0)
      in Patch env (\<lambda>st. st\<lparr>Progress :=
            Some \<lparr>ControlPlaneReady = cpReady, DataPlanePercent = percent\<rparr>\<rparr>))"

definition SetTrustInfo :: "('e StatusEnv_scheme) \<Rightarrow> BundleState option \<Rightarrow> string \<Rightarrow> string \<Rightarrow>
    World \<Rightarrow> error option \<times> World" where
  "SetTrustInfo env bundleState currentFP previousFP =
     Patch env (\<lambda>st. st\<lparr>Trust :=
        Some \<lparr>TrustBundleState = bundleState, CurrentFP = currentFP, PreviousFP = previousFP\<rparr>\<rparr>)"

definition SetPlanHash :: "('e StatusEnv_scheme) \<Rightarrow> WorkRef option \<Rightarrow> int \<Rightarrow> int \<Rightarrow> string \<Rightarrow>
    World \<Rightarrow> error option \<times> World" where
  "SetPlanHash env workRef nxt tot hash =
     Patch env (\<lambda>st. st\<lparr>Cursor :=
        Some \<lparr>PlanHash = hash, Next = nxt, Total = tot, LastDone = workRef\<rparr>\<rparr>)"

definition SetRetry :: "('e StatusEnv_scheme) \<Rightarrow> WorkRef option \<Rightarrow> int \<Rightarrow> string \<Rightarrow>
    World \<Rightarrow> error option \<times> World" where
  "SetRetry env workRef count lastErr w =
     (case (if count > 0 \<and> length lastErr > 0 then readClock env w else (0, w)) of
        (now, w1) \<Rightarrow>
          Patch env (\<lambda>st. st\<lparr>Retries :=
            Some \<lparr>Count = count, LastError = lastErr, LastFailed = workRef,
                  LastErrorTime = Some now\<rparr>\<rparr>) w1)"

definition SetDryRunOutput :: "('e StatusEnv_scheme) \<Rightarrow> string \<Rightarrow> World \<Rightarrow> error option \<times> World" where
  "SetDryRunOutput env dryRunOutput =
     Patch env (\<lambda>st. st\<lparr>Phase := Some PhaseDryRun, Reason := Some ReasonDryRun,
        Message := Some ''The data-plane dry run has completed successfully'',
        DryRunOutput := dryRunOutput, Progress := None\<rparr>)"

definition MarkSucceeded :: "('e StatusEnv_scheme) \<Rightarrow> string \<Rightarrow> World \<Rightarrow> error option \<times> World" where
  "MarkSucceeded env message w =
     (case readClock env w of (now, w1) \<Rightarrow>
        Patch env (\<lambda>st. st\<lparr>Phase := Some ''Succeeded'', Reason := Some ''Completed'',
          Message := Some message, CompletionTime := Some now\<rparr>) w1)"

definition MarkFailed :: "('e StatusEnv_scheme) \<Rightarrow> string \<Rightarrow> string \<Rightarrow> World \<Rightarrow> error option \<times> World" where
  "MarkFailed env reason message w =
     (case readClock env w of (now, w1) \<Rightarrow>
        Patch env (\<lambda>st. st\<lparr>Phase := Some ''Failed'', Reason := Some reason,
          Message := Some message, CompletionTime := Some now\<rparr>) w1)"

section \<open>SHA-1 and hex encoding (crypto/sha1, encoding/hex)\<close>

text \<open>
  The plan hash is a SHA-1 digest, so the digest is written out: bytes are integers below
  256, words are 32-bit machine words with wrap-around addition.
\<close>

definition sha1Pad :: "int list \<Rightarrow> int list" where
  "sha1Pad msg =
     (let l = length msg; bits = 8 * int l
      in msg @ [128] @ replicate ((119 - l mod 64) mod 64) 0 @
         map (\<lambda>i. (bits div 256 ^ (7 - i)) mod 256) [0 ..< 8])"

fun sha1Words :: "int list \<Rightarrow> 32 word list" where
  "sha1Words (b0 # b1 # b2 # b3 # bs) =
     of_int (((b0 * 256 + b1) * 256 + b2) * 256 + b3) # sha1Words bs"
| "sha1Words _ = []"

fun sha1Extend :: "nat \<Rightarrow> 32 word list \<Rightarrow> 32 word list" where
  "sha1Extend 0 ws = ws"
| "sha1Extend (Suc n) ws =
     (let l = length ws
      in sha1Extend n (ws @ [word_rotl 1
           (xor (xor (xor (ws ! (l - 3)) (ws ! (l - 8))) (ws ! (l - 14))) (ws ! (l - 16)))]))"

definition sha1F :: "nat \<Rightarrow> 32 word \<Rightarrow> 32 word \<Rightarrow> 32 word \<Rightarrow> 32 word" where
  "sha1F i b c d =
     (if i < 20 then or (and b c) (and (not b) d)
      else if i < 40 then xor (xor b c) d
      else if i < 60 then or (or (and b c) (and b d)) (and c d)
      else xor (xor b c) d)"

definition sha1K :: "nat \<Rightarrow> 32 word" where
  "sha1K i =
     (if i < 20 then 0x5A827999 else if i < 40 then 0x6ED9EBA1
      else if i < 60 then 0x8F1BBCDC else 0xCA62C1D6)"

type_synonym sha1State = "32 word \<times> 32 word \<times> 32 word \<times> 32 word \<times> 32 word"

definition sha1Round :: "nat \<times> 32 word \<Rightarrow> sha1State \<Rightarrow> sha1State" where
  "sha1Round iw st =
     (case (iw, st) of ((i, wi), (a, b, c, d, e)) \<Rightarrow>
        (word_rotl 5 a + sha1F i b c d + e + sha1K i + wi, a, word_rotl 30 b, c, d))"

definition sha1Block :: "sha1State \<Rightarrow> 32 word list \<Rightarrow> sha1State" where
  "sha1Block h ws =
     (case (h, fold sha1Round (zip [0 ..< 80] (sha1Extend 64 ws)) h) of
        ((h0, h1, h2, h3, h4), (a, b, c, d, e)) \<Rightarrow> (h0 + a, h1 + b, h2 + c, h3 + d, h4 + e))"

fun sha1Blocks :: "nat \<Rightarrow> sha1State \<Rightarrow> 32 word list \<Rightarrow> sha1State" where
  "sha1Blocks 0 h ws = h"
| "sha1Blocks (Suc n) h ws = sha1Blocks n (sha1Block h (take 16 ws)) (drop 16 ws)"

definition wordBytes :: "32 word \<Rightarrow> int list" where
  "wordBytes x = map (\<lambda>i. (uint x div 256 ^ (3 - i)) mod 256) [0 ..< 4]"

definition sha1Sum :: "string \<Rightarrow> int list" where
  "sha1Sum s =
     (let ws = sha1Words (sha1Pad (map of_char s))
      in case sha1Blocks (length ws div 16)
              (0x67452301, 0xEFCDAB89, 0x98BADCFE, 0x10325476, 0xC3D2E1F0) ws of
           (h0, h1, h2, h3, h4) \<Rightarrow> concat (map wordBytes [h0, h1, h2, h3, h4]))"

definition hexEncodeToString :: "int list \<Rightarrow> string" where
  "hexEncodeToString bs =
     concat (map (\<lambda>b. [''0123456789abcdef'' ! nat (b div 16), ''0123456789abcdef'' ! nat (b mod 16)]) bs)"

section \<open>Plan builder (internal/rollout)\<close>

abbreviation Restart :: string where "Restart \<equiv> ''rolloutRestart''"
abbreviation Delete :: string where "Delete \<equiv> ''rolloutDelete''"

abbreviation KindDeployment :: string where "KindDeployment \<equiv> ''Deployment''"
abbreviation KindStatefulSet :: string where "KindStatefulSet \<equiv> ''StatefulSet''"
abbreviation KindDaemonSet :: string where "KindDaemonSet \<equiv> ''DaemonSet''"
abbreviation KindCR :: string where "KindCR \<equiv> ''CustomResource''"

text \<open>
  \<open>WorkItem\<close> with the embedded \<open>WorkItemDryRun\<close> inlined. The four object pointers
  are options: the builder sets the one of the item's kind.
\<close>

record WorkItem =
  Kind :: string
  Namespace :: string
  Name :: string
  Strategy :: string
  Dep :: "Workload option"
  Sts :: "Workload option"
  Ds :: "Workload option"
  CR :: "Unstructured option"
  BumpAnnotationKey :: string
  BumpAnnotationValue :: string

record Result =
  Queue :: "WorkItem list"
  Deployments :: int
  StatefulSets :: int
  DaemonSets :: int
  CustomResources :: int

text \<open>\<open>unstructured.NestedFieldNoCopy\<close>: follow the fields through nested maps.\<close>

fun nestedField :: "jv \<Rightarrow> string list \<Rightarrow> jv option" where
  "nestedField v [] = Some v"
| "nestedField (JMap kvs) (f # fs) =
     (case map_of kvs f of None \<Rightarrow> None | Some v \<Rightarrow> nestedField v fs)"
| "nestedField _ (f # fs) = None"

definition nestedString :: "Unstructured \<Rightarrow> string list \<Rightarrow> string" where
  "nestedString u path = (case nestedField (JMap u) path of Some (JString s) \<Rightarrow> s | _ \<Rightarrow> [])"

definition GetNamespace :: "Unstructured \<Rightarrow> string" where
  "GetNamespace u = nestedString u [''metadata'', ''namespace'']"

definition GetName :: "Unstructured \<Rightarrow> string" where
  "GetName u = nestedString u [''metadata'', ''name'']"

definition GetKind :: "Unstructured \<Rightarrow> string" where
  "GetKind u = nestedString u [''kind'']"

text \<open>
  \<open>getAnnoFromMap\<close> (always called with a non-empty path): the map at the path, with
  its string values only.
\<close>

definition getAnnoFromMap :: "Unstructured \<Rightarrow> string list \<Rightarrow> (string \<rightharpoonup> string) option" where
  "getAnnoFromMap m path =
     (case nestedField (JMap m) path of
        Some (JMap raw) \<Rightarrow>
          Some (\<lambda>k. case map_of raw k of Some (JString s) \<Rightarrow> Some s | _ \<Rightarrow> None)
      | _ \<Rightarrow> None)"

definition annoMatches :: "(string \<rightharpoonup> string) option \<Rightarrow> string \<Rightarrow> string \<Rightarrow> bool" where
  "annoMatches ann key val =
     (case ann of
        None \<Rightarrow> False
      | Some a \<Rightarrow> (case a key of None \<Rightarrow> False | Some v \<Rightarrow> val = [] \<or> v = val))"

definition crHasTemplateAnnotation :: "Unstructured \<Rightarrow> string \<Rightarrow> string \<Rightarrow> bool" where
  "crHasTemplateAnnotation u key val \<longleftrightarrow>
     annoMatches (getAnnoFromMap u [''spec'', ''template'', ''metadata'', ''annotations'']) key val
     \<or> annoMatches (getAnnoFromMap u
          [''spec'', ''jobTemplate'', ''spec'', ''template'', ''metadata'', ''annotations'']) key val
     \<or> annoMatches (getAnnoFromMap u [''spec'', ''podTemplate'', ''metadata'', ''annotations'']) key val
     \<or> (case nestedField (JMap u) [''spec'', ''pods''] of
          Some (JList arr) \<Rightarrow>
            list_ex (\<lambda>it. case it of
                JMap pm \<Rightarrow> annoMatches (getAnnoFromMap pm [''metadata'', ''annotations'']) key val
              | _ \<Rightarrow> False) arr
        | _ \<Rightarrow> False)"

definition hasAnnotationOnTemplate :: "Workload \<Rightarrow> string \<Rightarrow> string \<Rightarrow> bool" where
  "hasAnnotationOnTemplate t key val =
     (case TemplateAnnotations t of None \<Rightarrow> False | Some ann \<Rightarrow> ann key = Some val)"

text \<open>
  \<open>%q\<close> of a string without quotes, backslashes or control characters, as namespace
  names are.
\<close>

definition goQuote :: "string \<Rightarrow> string" where
  "goQuote s = [CHR 0x22] @ s @ [CHR 0x22]"

definition apiFailure :: "'a ApiResult \<Rightarrow> string" where
  "apiFailure r = (case r of ApiOK _ \<Rightarrow> [] | ApiNotFound m \<Rightarrow> m | ApiError m \<Rightarrow> m)"

definition tick :: "World \<Rightarrow> World" where
  "tick w = w\<lparr>calls := calls w + 1\<rparr>"

definition typedItem :: "string \<Rightarrow> string \<Rightarrow> Workload \<Rightarrow> WorkItem" where
  "typedItem kind rolloutStrategy obj =
     \<lparr>Kind = kind, Namespace = objNamespace obj, Name = objName obj, Strategy = rolloutStrategy,
      Dep = (if kind = KindDeployment then Some obj else None),
      Sts = (if kind = KindStatefulSet then Some obj else None),
      Ds = (if kind = KindDaemonSet then Some obj else None),
      CR = None, BumpAnnotationKey = [], BumpAnnotationValue = []\<rparr>"

text \<open>
  The loop over the namespaces of one typed scope. The three typed kinds run the same
  loop; \<open>prepare\<close> is what is done to the listed items before they are filtered:
  nothing for DaemonSets and Deployments, \<open>sort.SliceStable\<close> by name for StatefulSets.
\<close>

fun selectTyped :: "Env \<Rightarrow> string \<Rightarrow> string \<Rightarrow> (Workload list \<Rightarrow> Workload list) \<Rightarrow> string \<Rightarrow>
    string \<Rightarrow> string \<Rightarrow> string list \<Rightarrow> WorkItem list \<Rightarrow> World \<Rightarrow> (error + WorkItem list) \<times> World" where
  "selectTyped env kind plural prepare key val strat [] found w = (Inr found, w)"
| "selectTyped env kind plural prepare key val strat (ns # nss) found w =
     (case listWorkloads env (calls w) kind ns of
        ApiOK items \<Rightarrow>
          selectTyped env kind plural prepare key val strat nss
            (found @ map (typedItem kind strat)
               (filter (\<lambda>obj. hasAnnotationOnTemplate obj key val) (prepare items)))
            (tick w)
      | r \<Rightarrow> (Inl (Error (''list '' @ plural @ '' in '' @ goQuote ns @ '': '' @ apiFailure r)), tick w))"

definition customItem :: "string \<Rightarrow> AnnotationBumpOptions option \<Rightarrow> Unstructured \<Rightarrow> WorkItem" where
  "customItem rolloutStrategy bump cr =
     \<lparr>Kind = KindCR, Namespace = GetNamespace cr, Name = GetName cr, Strategy = rolloutStrategy,
      Dep = None, Sts = None, Ds = None, CR = Some cr,
      BumpAnnotationKey = (case bump of None \<Rightarrow> [] | Some b \<Rightarrow> OptBumpAnnotationKey b),
      BumpAnnotationValue = (case bump of None \<Rightarrow> [] | Some b \<Rightarrow> OptBumpAnnotationValue b)\<rparr>"

definition gvkString :: "string \<times> string \<times> string \<Rightarrow> string" where
  "gvkString gvk = (case gvk of (g, v, k) \<Rightarrow> g @ ''/'' @ v @ '', Kind='' @ k)"

fun selectCustom :: "Env \<Rightarrow> string \<times> string \<times> string \<Rightarrow> AnnotationBumpOptions option \<Rightarrow> string \<Rightarrow>
    string \<Rightarrow> string \<Rightarrow> string list \<Rightarrow> WorkItem list \<Rightarrow> World \<Rightarrow> (error + WorkItem list) \<times> World" where
  "selectCustom env gvk bump key val strat [] found w = (Inr found, w)"
| "selectCustom env gvk bump key val strat (ns # nss) found w =
     (case listCustomResources env (calls w) gvk ns of
        ApiOK items \<Rightarrow>
          selectCustom env gvk bump key val strat nss
            (found @ map (customItem strat bump)
               (filter (\<lambda>u. crHasTemplateAnnotation u key val) items))
            (tick w)
      | r \<Rightarrow> (Inl (Error (''list '' @ gvkString gvk @ '' in '' @ goQuote ns @ '': '' @ apiFailure r)),
              tick w))"

text \<open>
  One pass of the loop over \<open>targets\<close>, then the rest. The queue grows in the order of
  the scopes, of their namespaces, and of the items as prepared.
\<close>

fun selectScopes :: "Env \<Rightarrow> string \<Rightarrow> string \<Rightarrow> TargetScope list \<Rightarrow> Result \<Rightarrow> World \<Rightarrow>
    (error + Result) \<times> World" where
  "selectScopes env key val [] result w = (Inr result, w)"
| "selectScopes env key val (scope # scopes) result w =
     (let namespaces = AllowedNamespaces scope in
      if length namespaces = 0
      then (Inl (Error (''targets['' @ KindType scope @ '']: allowedNamespaces is required'')), w)
      else
        let rolloutStrategy =
              (if length (RolloutStrategy scope) = 0 then Restart else RolloutStrategy scope)
        in
        if KindType scope = KindDaemonSet then
          (case selectTyped env KindDaemonSet ''daemonsets'' (\<lambda>items. items)
                  key val rolloutStrategy namespaces [] w of
             (Inl e, w1) \<Rightarrow> (Inl e, w1)
           | (Inr found, w1) \<Rightarrow>
               selectScopes env key val scopes
                 (result\<lparr>Queue := Queue result @ found,
                    DaemonSets := DaemonSets result + int (length found)\<rparr>) w1)
        else if KindType scope = KindDeployment then
          (case selectTyped env KindDeployment ''deployments'' (\<lambda>items. items)
                  key val rolloutStrategy namespaces [] w of
             (Inl e, w1) \<Rightarrow> (Inl e, w1)
           | (Inr found, w1) \<Rightarrow>
               selectScopes env key val scopes
                 (result\<lparr>Queue := Queue result @ found,
                    Deployments := Deployments result + int (length found)\<rparr>) w1)
        else if KindType scope = KindCR then
          (if length (APIGroup scope) = 0 \<or> length (ScopeKind scope) = 0
              \<or> length (Version scope) = 0
           then (Inl (Error (''targets['' @ KindType scope
                   @ '']: apiGroup, kind and version are required'')), w)
           else
             (case selectCustom env (APIGroup scope, Version scope, ScopeKind scope)
                     (AnnotationBump scope) key val rolloutStrategy namespaces [] w of
                (Inl e, w1) \<Rightarrow> (Inl e, w1)
              | (Inr found, w1) \<Rightarrow>
                  selectScopes env key val scopes
                    (result\<lparr>Queue := Queue result @ found,
                       CustomResources := CustomResources result + int (length found)\<rparr>) w1))
        else if KindType scope = KindStatefulSet then
          (case selectTyped env KindStatefulSet ''statefulsets'' (sort_key objName)
                  key val rolloutStrategy namespaces [] w of
             (Inl e, w1) \<Rightarrow> (Inl e, w1)
           | (Inr found, w1) \<Rightarrow>
               selectScopes env key val scopes
                 (result\<lparr>Queue := Queue result @ found,
                    StatefulSets := StatefulSets result + int (length found)\<rparr>) w1)
        else (Inl (Error (''unsupported kind in targets: '' @ KindType scope)), w))"

definition SelectLinkerdDataPlane :: "Env \<Rightarrow> LinkerdTrustRotationSpec \<Rightarrow> World \<Rightarrow>
    (error + Result) \<times> World" where
  "SelectLinkerdDataPlane env spec w =
     selectScopes env (SelectorKey spec) (SelectorValue spec) (Targets spec)
       \<lparr>Queue = [], Deployments = 0, StatefulSets = 0, DaemonSets = 0, CustomResources = 0\<rparr> w"

section \<open>Plan hash and helpers (internal/rollout/helpers.go)\<close>

text \<open>
  \<open>getNamespace\<close> and \<open>getName\<close> read the object of the item's kind; \<open>None\<close> is the
  nil-pointer panic of an item whose object is missing.
\<close>

definition getNamespace :: "WorkItem \<Rightarrow> string option" where
  "getNamespace w =
     (if Kind w = KindDeployment then map_option objNamespace (Dep w)
      else if Kind w = KindStatefulSet then map_option objNamespace (Sts w)
      else if Kind w = KindDaemonSet then map_option objNamespace (Ds w)
      else if Kind w = KindCR then map_option GetNamespace (CR w)
      else Some [])"

definition getName :: "WorkItem \<Rightarrow> string option" where
  "getName w =
     (if Kind w = KindDeployment then map_option objName (Dep w)
      else if Kind w = KindStatefulSet then map_option objName (Sts w)
      else if Kind w = KindDaemonSet then map_option objName (Ds w)
      else if Kind w = KindCR then map_option GetName (CR w)
      else Some [])"

text \<open>What \<open>planHash\<close> writes into the digest for one item.\<close>

definition planItemText :: "WorkItem \<Rightarrow> string option" where
  "planItemText w =
     (if Kind w = KindDeployment then
        map_option (\<lambda>d. Kind w @ ''|'' @ objNamespace d @ ''/'' @ objName d @ [CHR 0x0A]) (Dep w)
      else if Kind w = KindStatefulSet then
        map_option (\<lambda>s. Kind w @ ''|'' @ objNamespace s @ ''/'' @ objName s @ ''|'' @ Strategy w
                      @ [CHR 0x0A]) (Sts w)
      else if Kind w = KindDaemonSet then
        map_option (\<lambda>d. Kind w @ ''|'' @ objNamespace d @ ''/'' @ objName d @ [CHR 0x0A]) (Ds w)
      else if Kind w = KindCR then
        map_option (\<lambda>u. Kind w @ ''|'' @ GetNamespace u @ ''/'' @ GetName u @ ''|'' @ Strategy w
                      @ (if BumpAnnotationKey w \<noteq> []
                         then ''|'' @ BumpAnnotationKey w @ ''='' @ BumpAnnotationValue w else [])
                      @ [CHR 0x0A]) (CR w)
      else Some (Kind w @ ''|'' @ [CHR 0x0A]))"

definition planText :: "WorkItem list \<Rightarrow> string option" where
  "planText queue = map_option concat (those (map planItemText queue))"

definition planHash :: "WorkItem list \<Rightarrow> string option" where
  "planHash queue = map_option (\<lambda>t. take 12 (hexEncodeToString (sha1Sum t))) (planText queue)"

section \<open>Rollout engine (internal/rollout)\<close>

abbreviation restartedAtKey :: string where
  "restartedAtKey \<equiv> ''kubectl.kubernetes.io/restartedAt''"

text \<open>The polling period and the per-item limit, in seconds.\<close>

definition rolloutPollInterval :: nat where "rolloutPollInterval = 2"
definition rolloutPerLimit :: nat where "rolloutPerLimit = 5 * 60"

text \<open>Go's \<open>if err := f(); err != nil { return err }\<close> followed by the rest.\<close>

definition andThen :: "(World \<Rightarrow> error option \<times> World) \<Rightarrow> (World \<Rightarrow> error option \<times> World) \<Rightarrow>
    World \<Rightarrow> error option \<times> World" where
  "andThen f g w = (case f w of (None, w1) \<Rightarrow> g w1 | (Some e, w1) \<Rightarrow> (Some e, w1))"

definition apiWrite :: "Env \<Rightarrow> Action \<Rightarrow> World \<Rightarrow> unit ApiResult \<times> World" where
  "apiWrite env a w =
     (writeResult env (calls w) a, w\<lparr>calls := calls w + 1, trace := trace w @ [a]\<rparr>)"

definition patchObject :: "Env \<Rightarrow> Action \<Rightarrow> World \<Rightarrow> error option \<times> World" where
  "patchObject env a w =
     (case apiWrite env a w of
        (ApiOK _, w1) \<Rightarrow> (None, w1)
      | (r, w1) \<Rightarrow> (Some (Error (apiFailure r)), w1))"

text \<open>
  \<open>bumpAnnotationGeneric\<close> on a typed workload sets the key in the pod template's
  annotations and patches the object; on an \<open>Unstructured\<close> it sets the key in the
  object's own annotations (\<open>bumpAnnotationUnstructured\<close>).
\<close>

definition bumpAnnotationGeneric :: "Env \<Rightarrow> string \<Rightarrow> Workload \<Rightarrow> string \<Rightarrow> string \<Rightarrow> World \<Rightarrow>
    error option \<times> World" where
  "bumpAnnotationGeneric env kind obj key val =
     patchObject env (PatchTemplateAnnotation kind (objNamespace obj) (objName obj) key val)"

definition bumpRestartAnnotation :: "Env \<Rightarrow> string \<Rightarrow> Workload \<Rightarrow> World \<Rightarrow> error option \<times> World" where
  "bumpRestartAnnotation env kind obj w =
     (case readClock env w of (now, w1) \<Rightarrow>
        bumpAnnotationGeneric env kind obj restartedAtKey (formatRFC3339 env now) w1)"

definition bumpAnnotationUnstructured :: "Env \<Rightarrow> Unstructured \<Rightarrow> string \<Rightarrow> string \<Rightarrow> World \<Rightarrow>
    error option \<times> World" where
  "bumpAnnotationUnstructured env u key val =
     patchObject env (PatchMetadataAnnotation (GetNamespace u) (GetName u) key val)"

definition waitRollout :: "Env \<Rightarrow> string \<Rightarrow> string \<Rightarrow> string \<Rightarrow> World \<Rightarrow> error option \<times> World" where
  "waitRollout env kind ns nm w =
     (map_option Error (waitRolledOut env (calls w) kind ns nm), tick w)"

definition runProxyCheckIfEnabled :: "Env \<Rightarrow> LinkerdTrustRotationSpec \<Rightarrow> string \<Rightarrow> string \<Rightarrow> World \<Rightarrow>
    error option \<times> World" where
  "runProxyCheckIfEnabled env spec targetNS targetName w =
     (if \<not> RunLinkerdCheckProxy spec then (None, w)
      else (map_option Error (runLinkerdCheckJob env (calls w) (LinkerdCheckProxyImage spec)
              targetNS (LinkerdNamespace spec) targetName), tick w))"

subsection \<open>StatefulSet restart by pod deletion\<close>

text \<open>
  \<open>podOrdinal\<close>: \<open>Sscanf("%d")\<close> on what follows the last dash. The scanner takes an
  optional sign and then digits and underscores; no digit, an underscore or a value
  beyond 64 bits is an error, which leaves the result at \<open>-1\<close>. Leading blanks, which
  the scanner would skip, do not occur in object names and are not modelled.
\<close>

definition isDigit :: "char \<Rightarrow> bool" where
  "isDigit c \<longleftrightarrow> CHR ''0'' \<le> c \<and> c \<le> CHR ''9''"

definition decimalValue :: "string \<Rightarrow> int" where
  "decimalValue ds = foldl (\<lambda>acc c. 10 * acc + (of_char c - 48)) 0 ds"

definition scanDecimal :: "string \<Rightarrow> int option" where
  "scanDecimal s =
     (let neg = (s \<noteq> [] \<and> hd s = CHR ''-'');
          body = (if s \<noteq> [] \<and> (hd s = CHR ''+'' \<or> hd s = CHR ''-'') then tl s else s);
          tok = takeWhile (\<lambda>c. isDigit c \<or> c = CHR ''_'') body;
          v = (if neg then - decimalValue tok else decimalValue tok)
      in if tok = [] \<or> CHR ''_'' \<in> set tok then None
         else if v < - (2 ^ 63) \<or> v > 2 ^ 63 - 1 then None
         else Some v)"

definition podOrdinal :: "string \<Rightarrow> int" where
  "podOrdinal name =
     (if CHR ''-'' \<in> set name
      then (case scanDecimal (rev (takeWhile (\<lambda>c. c \<noteq> CHR ''-'') (rev name))) of
              None \<Rightarrow> - 1 | Some n \<Rightarrow> n)
      else - 1)"

definition podReady :: "Pod \<Rightarrow> bool" where
  "podReady p = list_ex (\<lambda>c. fst c = ''Ready'' \<and> snd c = ''True'') (Conditions p)"

text \<open>
  The polling loop of \<open>deletePodAndWaitSameNameReady\<close> over the ticks before the
  deadline: a cancelled context and an API error other than not-found end it, a pod that
  is not terminating, \<open>Running\<close> and ready ends it with success, and running out of ticks
  is the timeout.
\<close>

fun waitSameNameReady :: "string \<Rightarrow> string \<Rightarrow> PollEvent list \<Rightarrow> World \<Rightarrow> error option \<times> World" where
  "waitSameNameReady ns nm [] w =
     (Some (Error (''timeout waiting pod '' @ ns @ ''/'' @ nm @ '' to be Ready after delete'')), w)"
| "waitSameNameReady ns nm (Cancelled e # evs) w = (Some (Error e), w)"
| "waitSameNameReady ns nm (Polled r # evs) w =
     (let w1 = w\<lparr>trace := trace w @ [ObservePod ns nm r]\<rparr> in
      case r of
        ApiNotFound _ \<Rightarrow> waitSameNameReady ns nm evs w1
      | ApiError m \<Rightarrow> (Some (Error m), w1)
      | ApiOK cur \<Rightarrow>
          if DeletionTimestamp cur = None \<and> PodPhase cur = ''Running'' \<and> podReady cur
          then (None, w1)
          else waitSameNameReady ns nm evs w1)"

definition deletePodAndWaitSameNameReady :: "Env \<Rightarrow> Pod \<Rightarrow> nat \<Rightarrow> World \<Rightarrow> error option \<times> World" where
  "deletePodAndWaitSameNameReady env p timeout w =
     (case apiWrite env (DeletePod (podNamespace p) (podName p) ''Background'' None) w of
        (ApiError m, w1) \<Rightarrow>
          (Some (Error (''delete pod '' @ podNamespace p @ ''/'' @ podName p @ '': '' @ m)), w1)
      | (_, w1) \<Rightarrow>
          waitSameNameReady (podNamespace p) (podName p)
            (podPolls env (calls w1) 2 timeout (podNamespace p) (podName p)) (tick w1))"

fun deletePods :: "Env \<Rightarrow> Workload \<Rightarrow> nat \<Rightarrow> Pod list \<Rightarrow> World \<Rightarrow> error option \<times> World" where
  "deletePods env sts perPodTimeout [] w = (None, w)"
| "deletePods env sts perPodTimeout (p # ps) w =
     (case deletePodAndWaitSameNameReady env p perPodTimeout w of
        (None, w1) \<Rightarrow> deletePods env sts perPodTimeout ps w1
      | (Some (Error m), w1) \<Rightarrow>
          (Some (Error (''rolloutDelete '' @ podNamespace p @ ''/'' @ objName sts @ '' pod ''
              @ podName p @ '': '' @ m)), w1)
      | (Some Panic, w1) \<Rightarrow> (Some Panic, w1))"

text \<open>
  \<open>sort.Slice\<close> with \<open>podOrdinal(i) > podOrdinal(j)\<close>: descending ordinals. The Go sort
  leaves the order of pods with equal ordinals open; the model keeps them as listed.
\<close>

definition restartStatefulSetByDelete :: "Env \<Rightarrow> Workload \<Rightarrow> nat \<Rightarrow> World \<Rightarrow> error option \<times> World" where
  "restartStatefulSetByDelete env sts perPodTimeout w =
     (case labelSelectorAsSelector env (Selector sts) of
        Inl m \<Rightarrow>
          (Some (Error (''build selector for StatefulSet '' @ objNamespace sts @ ''/'' @ objName sts
              @ '': '' @ m)), w)
      | Inr selector \<Rightarrow>
          (case listPods env (calls w) (objNamespace sts) selector of
             ApiOK pods \<Rightarrow>
               if length pods = 0 then (None, tick w)
               else deletePods env sts perPodTimeout
                      (sort_key (\<lambda>p. - podOrdinal (podName p)) pods) (tick w)
           | r \<Rightarrow>
               (Some (Error (''list pods for StatefulSet '' @ objNamespace sts @ ''/'' @ objName sts
                   @ '': '' @ apiFailure r)), tick w)))"

subsection \<open>The data-plane rollout\<close>

text \<open>
  The two closures of \<open>RestartLinkerdDataPlane\<close>. \<open>recordFailure\<close> reads the retry
  count from the status in memory, writes it back one higher with the cause and the
  failing item, and returns the cause, or the error of the status write when that fails.
  The count is a Go \<open>int\<close>, 64 bits wide on the platforms the operator is built for:
  \<open>retries+1\<close> wraps around, which \<open>wrap64\<close> writes out.
  \<open>bumpProgress\<close> counts the finished item and writes cursor and progress; its
  counter stays within the length of the queue.
\<close>

definition wrap64 :: "int \<Rightarrow> int" where
  "wrap64 x = (x + 2 ^ 63) mod 2 ^ 64 - 2 ^ 63"

definition recordFailure :: "Env \<Rightarrow> WorkRef \<Rightarrow> string \<Rightarrow> World \<Rightarrow> error option \<times> World" where
  "recordFailure env lastRef cause w =
     (let retries = (case Retries (Status w) of None \<Rightarrow> 0 | Some r \<Rightarrow> Count r) in
      case SetRetry env (Some lastRef) (wrap64 (retries + 1)) cause w of
        (Some e, w1) \<Rightarrow> (Some e, w1)
      | (None, w1) \<Rightarrow> (Some (Error cause), w1))"

definition bumpProgress :: "Env \<Rightarrow> WorkRef \<Rightarrow> int \<Rightarrow> int \<Rightarrow> string \<Rightarrow> World \<Rightarrow> error option \<times> World" where
  "bumpProgress env lastRef processed tot hash =
     andThen (SetPlanHash env (Some lastRef) (processed + 1) tot hash)
       (SetProgress env True (Some (processed + 1)) (Some tot))"

text \<open>\<open>if err := step; err != nil { return recordFailure(w, err) }\<close>, then the rest.\<close>

definition orRecord :: "Env \<Rightarrow> WorkRef \<Rightarrow> (World \<Rightarrow> error option \<times> World) \<Rightarrow>
    (World \<Rightarrow> error option \<times> World) \<Rightarrow> World \<Rightarrow> error option \<times> World" where
  "orRecord env lastRef step rest w =
     (case step w of
        (None, w1) \<Rightarrow> rest w1
      | (Some (Error cause), w1) \<Rightarrow> recordFailure env lastRef cause w1
      | (Some Panic, w1) \<Rightarrow> (Some Panic, w1))"

text \<open>
  The body of the loop for one item: the \<open>switch\<close> on the kind. Every branch first
  reads namespace and name of the item's object (for the log line), which panics when
  the object is missing; an item of no known kind is passed over.
\<close>

definition processItem :: "Env \<Rightarrow> LinkerdTrustRotationSpec \<Rightarrow> string \<Rightarrow> int \<Rightarrow> int \<Rightarrow> WorkItem \<Rightarrow>
    World \<Rightarrow> error option \<times> World" where
  "processItem env spec hash tot processed item w =
     (case (getNamespace item, getName item) of
        (Some ns, Some nm) \<Rightarrow>
          (let lastRef = \<lparr>refKind = Kind item, refNamespace = ns, refName = nm\<rparr>;
               finish = orRecord env lastRef (runProxyCheckIfEnabled env spec ns nm)
                          (orRecord env lastRef (bumpProgress env lastRef processed tot hash)
                             (\<lambda>w'. (None, w')))
           in
           if Kind item = KindDaemonSet then
             (case Ds item of
                None \<Rightarrow> (Some Panic, w)
              | Some ds \<Rightarrow>
                  orRecord env lastRef (bumpRestartAnnotation env KindDaemonSet ds)
                    (orRecord env lastRef (waitRollout env KindDaemonSet ns nm) finish) w)
           else if Kind item = KindDeployment then
             (case Dep item of
                None \<Rightarrow> (Some Panic, w)
              | Some dep \<Rightarrow>
                  orRecord env lastRef (bumpRestartAnnotation env KindDeployment dep)
                    (orRecord env lastRef (waitRollout env KindDeployment ns nm) finish) w)
           else if Kind item = KindCR then
             (case CR item of
                None \<Rightarrow> (Some Panic, w)
              | Some cr \<Rightarrow>
                  if length (BumpAnnotationKey item) = 0 \<or> length (BumpAnnotationValue item) = 0
                  then recordFailure env lastRef
                         (''BumpAnnotationKey, BumpAnnotationValue is required for custom resources ''
                            @ GetKind cr) w
                  else
                    orRecord env lastRef
                      (bumpAnnotationUnstructured env cr (BumpAnnotationKey item)
                         (BumpAnnotationValue item))
                      (orRecord env lastRef (waitRollout env KindCR ns nm) finish) w)
           else if Kind item = KindStatefulSet then
             (case Sts item of
                None \<Rightarrow> (Some Panic, w)
              | Some sts \<Rightarrow>
                  (if Strategy item = Restart
                   then (\<lambda>rest. orRecord env lastRef (bumpRestartAnnotation env KindStatefulSet sts)
                           (orRecord env lastRef (waitRollout env KindStatefulSet ns nm) rest))
                   else (\<lambda>rest. rest))
                    ((if Strategy item = Delete
                      then (\<lambda>rest. orRecord env lastRef
                              (restartStatefulSetByDelete env sts rolloutPerLimit) rest)
                      else (\<lambda>rest. rest)) finish) w)
           else (None, w))
      | _ \<Rightarrow> (Some Panic, w))"

definition knownKind :: "string \<Rightarrow> bool" where
  "knownKind k \<longleftrightarrow> k = KindDaemonSet \<or> k = KindDeployment \<or> k = KindCR \<or> k = KindStatefulSet"

text \<open>
  The loop \<open>for i := start; i < len(q); i++\<close> over the items from \<open>start\<close> on;
  \<open>processed\<close> is the counter \<open>bumpProgress\<close> increments.
\<close>

fun runQueue :: "Env \<Rightarrow> LinkerdTrustRotationSpec \<Rightarrow> string \<Rightarrow> int \<Rightarrow> int \<Rightarrow> WorkItem list \<Rightarrow>
    World \<Rightarrow> error option \<times> World" where
  "runQueue env spec hash tot processed [] w = (None, w)"
| "runQueue env spec hash tot processed (item # items) w =
     (case processItem env spec hash tot processed item w of
        (None, w1) \<Rightarrow>
          runQueue env spec hash tot
            (if knownKind (Kind item) then processed + 1 else processed) items w1
      | (Some e, w1) \<Rightarrow> (Some e, w1))"

text \<open>
  The start of the rollout (the \<open>if\<close> on \<open>obj.Status.Cursor\<close>): the index to start
  from, after the cursor has been reset when it is not resumed.
\<close>

definition resumeOrReset :: "Env \<Rightarrow> string \<Rightarrow> int \<Rightarrow> World \<Rightarrow> (error + int) \<times> World" where
  "resumeOrReset env hash tot w =
     (let reset = (case SetPlanHash env None 0 tot hash w of
                     (Some e, w1) \<Rightarrow> (Inl e, w1)
                   | (None, w1) \<Rightarrow> (Inr 0, w1))
      in case Cursor (Status w) of
           None \<Rightarrow> reset
         | Some cur \<Rightarrow>
             if PlanHash cur = hash \<and> Next cur > 0 \<and> Next cur \<le> tot
             then (Inr (Next cur), w)
             else reset)"

definition RestartLinkerdDataPlane :: "Env \<Rightarrow> LinkerdTrustRotationSpec \<Rightarrow> World \<Rightarrow> error option \<times> World" where
  "RestartLinkerdDataPlane env spec w =
     (case SelectLinkerdDataPlane env spec w of
        (Inl e, w1) \<Rightarrow> (Some e, w1)
      | (Inr result, w1) \<Rightarrow>
          andThen
            (SetPhase env (Some PhaseRollingDP) (Some ReasonDPBatchRestarting)
               (Some ''Starting rollout restart Linkerd data plane''))
            (\<lambda>w2.
               case planHash (Queue result) of
                 None \<Rightarrow> (Some Panic, w2)
               | Some hash \<Rightarrow>
                   (let tot = int (length (Queue result)) in
                    case resumeOrReset env hash tot w2 of
                      (Inl e, w3) \<Rightarrow> (Some e, w3)
                    | (Inr start, w3) \<Rightarrow>
                        andThen (SetProgress env True (Some start) (Some tot))
                          (andThen
                             (runQueue env spec hash tot start (drop (nat start) (Queue result)))
                             (andThen
                                (SetPhase env (Some PhaseRollingDP) (Some ReasonDPThresholdReached)
                                   (Some ''Finished restarted Linkerd data plane''))
                                (andThen (SetRetry env None 0 [])
                                   (SetPlanHash env None 0 tot hash)))) w3))
            w1)"

section \<open>Control-plane restart (internal/rollout/control_plane.go)\<close>

definition SelectLinkerdControlPlane :: "Env \<Rightarrow> LinkerdTrustRotationSpec \<Rightarrow> World \<Rightarrow>
    (error + Workload list) \<times> World" where
  "SelectLinkerdControlPlane env spec w =
     (case newRequirementErr env (LinkerdNamespace spec) of
        Some m \<Rightarrow> (Inl (Error (''build selector: '' @ m)), w)
      | None \<Rightarrow>
          (case listControlPlane env (calls w) (LinkerdNamespace spec) of
             ApiOK items \<Rightarrow> (Inr items, tick w)
           | r \<Rightarrow> (Inl (Error (apiFailure r)), tick w)))"

fun restartDeployments :: "Env \<Rightarrow> Workload list \<Rightarrow> World \<Rightarrow> error option \<times> World" where
  "restartDeployments env [] w = (None, w)"
| "restartDeployments env (dp # dps) w =
     andThen (bumpRestartAnnotation env KindDeployment dp)
       (andThen (waitRollout env KindDeployment (objNamespace dp) (objName dp))
          (restartDeployments env dps)) w"

text \<open>
  The Deployments are restarted in descending order of name (\<open>sort.Slice\<close> with
  \<open>>\<close>; names are unique within the namespace).
\<close>

definition RestartLinkerdControlPlane :: "Env \<Rightarrow> LinkerdTrustRotationSpec \<Rightarrow> World \<Rightarrow>
    error option \<times> World" where
  "RestartLinkerdControlPlane env spec w =
     (case SelectLinkerdControlPlane env spec w of
        (Inl e, w1) \<Rightarrow> (Some e, w1)
      | (Inr deployments, w1) \<Rightarrow>
          andThen
            (SetPhase env (Some PhaseRollingCP) (Some ReasonCPRestarting)
               (Some ''Starting rollout restart Linkerd control plane''))
            (andThen (SetProgress env False None None)
               (andThen (restartDeployments env (rev (sort_key objName deployments)))
                  (andThen (SetProgress env True None None)
                     (SetPhase env (Some PhaseRollingCP) (Some ReasonCPReady)
                        (Some ''Finished restarted Linkerd control plane''))))) w1)"

section \<open>Bundle inspector (internal/config_map)\<close>

abbreviation configMapDataKey :: string where "configMapDataKey \<equiv> ''ca-bundle.crt''"

record BundleResult =
  Certs :: "Certificate list"
  Fps :: "string list"
  State :: BundleState

text \<open>
  \<open>strings.TrimSpace(raw) == ""\<close>: the text consists of white space only, that is of
  the ASCII blanks and the UTF-8 encodings of the other Unicode spaces.
\<close>

fun spaceRunes :: "nat list \<Rightarrow> bool" where
  "spaceRunes [] = True"
| "spaceRunes [a] = (a \<in> {9, 10, 11, 12, 13, 32})"
| "spaceRunes [a, b] =
     (if a \<in> {9, 10, 11, 12, 13, 32} then spaceRunes [b]
      else a = 0xC2 \<and> (b = 0x85 \<or> b = 0xA0))"
| "spaceRunes (a # b # c # ds) =
     (if a \<in> {9, 10, 11, 12, 13, 32} then spaceRunes (b # c # ds)
      else if a = 0xC2 then (b = 0x85 \<or> b = 0xA0) \<and> spaceRunes (c # ds)
      else if a = 0xE1 then b = 0x9A \<and> c = 0x80 \<and> spaceRunes ds
      else if a = 0xE2 then
        (b = 0x80 \<and> (0x80 \<le> c \<and> c \<le> 0x8A \<or> c = 0xA8 \<or> c = 0xA9 \<or> c = 0xAF)
         \<or> b = 0x81 \<and> c = 0x9F) \<and> spaceRunes ds
      else if a = 0xE3 then b = 0x80 \<and> c = 0x80 \<and> spaceRunes ds
      else False)"

definition trimSpaceIsEmpty :: "string \<Rightarrow> bool" where
  "trimSpaceIsEmpty raw = spaceRunes (map of_char raw)"

text \<open>\<open>strings.ToLower\<close> on the ASCII letters, all a hex string could hold.\<close>

definition toLower :: "string \<Rightarrow> string" where
  "toLower s = map (\<lambda>c. if CHR ''A'' \<le> c \<and> c \<le> CHR ''Z'' then char_of (of_char c + (32::nat)) else c) s"

text \<open>
  \<open>parsePEMCerts\<close>: the loop over \<open>pem.Decode\<close>. Empty input holds no block; a block
  that is not a \<open>CERTIFICATE\<close> is skipped; one that does not parse ends the loop with
  the error.
\<close>

function parsePEMCertsFrom :: "Env \<Rightarrow> string \<Rightarrow> Certificate list \<Rightarrow> error + Certificate list" where
  "parsePEMCertsFrom env rest out =
     (if rest = [] then Inr out
      else
        (case pemDecode env rest of
           None \<Rightarrow> Inr out
         | Some (blk, n) \<Rightarrow>
             if BlockType blk \<noteq> ''CERTIFICATE''
             then parsePEMCertsFrom env (drop (Suc n) rest) out
             else
               (case x509ParseCertificate env (BlockBytes blk) of
                  Inl m \<Rightarrow> Inl (Error (''parse x509 cert: '' @ m))
                | Inr cert \<Rightarrow> parsePEMCertsFrom env (drop (Suc n) rest) (out @ [cert]))))"
  by pat_completeness auto
termination
  by (relation "measure (\<lambda>(env, rest, out). length rest)") auto

declare parsePEMCertsFrom.simps [simp del]

definition parsePEMCerts :: "Env \<Rightarrow> string \<Rightarrow> error + Certificate list" where
  "parsePEMCerts env pemBytes = parsePEMCertsFrom env pemBytes []"

definition LoadAndInspectCMBundle :: "Env \<Rightarrow> LinkerdTrustRotationSpec \<Rightarrow> World \<Rightarrow>
    (error + BundleResult) \<times> World" where
  "LoadAndInspectCMBundle env spec w =
     (let cmName = LinkerdNamespace spec @ ''/'' @ TrustRootsConfigMap spec in
      case getConfigMap env (calls w) (LinkerdNamespace spec) (TrustRootsConfigMap spec) of
        ApiNotFound _ \<Rightarrow> (Inl (Error (''configmap '' @ cmName @ '' not found'')), tick w)
      | ApiError m \<Rightarrow> (Inl (Error (''get configmap '' @ cmName @ '': '' @ m)), tick w)
      | ApiOK data \<Rightarrow>
          (case data configMapDataKey of
             None \<Rightarrow>
               (Inl (Error (''configmap '' @ cmName @ '' has no key '' @ goQuote configMapDataKey)),
                tick w)
           | Some raw \<Rightarrow>
               if trimSpaceIsEmpty raw
               then (Inl (Error (''configmap '' @ cmName @ '' key '' @ goQuote configMapDataKey
                        @ '' is empty'')), tick w)
               else
                 (case parsePEMCerts env raw of
                    Inl (Error m) \<Rightarrow> (Inl (Error (''parse bundle: '' @ m)), tick w)
                  | Inl Panic \<Rightarrow> (Inl Panic, tick w)
                  | Inr certs \<Rightarrow>
                      (let fps = sort (map (\<lambda>c. toLower (hexEncodeToString (sha256Sum env (Raw c))))
                                         certs)
                       in if length certs = 0
                          then (Inl (Error (''no CERTIFICATE blocks found in '' @ cmName)), tick w)
                          else (Inr \<lparr>Certs = certs, Fps = fps,
                                    State = (if length certs = 1 then BundleStateSingle
                                             else BundleStateOverlap)\<rparr>, tick w)))))"

section \<open>Secret handling (internal/secret)\<close>

text \<open>
  \<open>EnsureTrustSecrets\<close> is taken as what it returns. \<open>DeleteSecrets\<close> deletes with
  zero grace and background propagation and takes not-found for success.
\<close>

definition EnsureTrustSecrets :: "Env \<Rightarrow> World \<Rightarrow> (error + SecretResult) \<times> World" where
  "EnsureTrustSecrets env w =
     (case ensureTrustSecrets env (calls w) of
        Inl m \<Rightarrow> (Inl (Error m), tick w)
      | Inr r \<Rightarrow> (Inr r, tick w))"

definition DeleteSecrets :: "Env \<Rightarrow> LinkerdTrustRotationSpec \<Rightarrow> string \<Rightarrow> World \<Rightarrow> error option \<times> World" where
  "DeleteSecrets env spec name w =
     (case apiWrite env (DeleteSecret (LinkerdNamespace spec) name ''Background'' (Some 0)) w of
        (ApiOK _, w1) \<Rightarrow> (None, w1)
      | (ApiNotFound _, w1) \<Rightarrow> (None, w1)
      | (ApiError m, w1) \<Rightarrow>
          (Some (Error (''delete secret '' @ LinkerdNamespace spec @ ''/'' @ name @ '': '' @ m)), w1))"

section \<open>Rotation controller (internal/controller)\<close>

text \<open>Requeue periods in seconds; \<open>0\<close> is the empty \<open>ctrl.Result\<close>.\<close>

definition frequency :: nat where "frequency = 10"

abbreviation linkerdIdentityIssuerSecret :: string where
  "linkerdIdentityIssuerSecret \<equiv> ''linkerd-identity-issuer''"

fun showNat :: "nat \<Rightarrow> string" where
  "showNat n =
     (if n < 10 then [''0123456789'' ! n] else showNat (n div 10) @ [''0123456789'' ! (n mod 10)])"

definition showInt :: "int \<Rightarrow> string" where
  "showInt i = (if i < 0 then ''-'' @ showNat (nat (- i)) else showNat (nat i))"

definition waitWithPurpose :: "Env \<Rightarrow> int option \<Rightarrow> World \<Rightarrow> error option \<times> World" where
  "waitWithPurpose env d w =
     (case d of
        None \<Rightarrow> (None, w)
      | Some dur \<Rightarrow>
          if dur \<le> 0 then (None, w)
          else (map_option Error (waitCancelled env (calls w)), tick w))"

text \<open>
  The \<open>switch\<close> on the triggers: the bundle state of this reconcile, written into the
  status with the fingerprints.
\<close>

definition detectBundleState :: "Env \<Rightarrow> LinkerdTrustRotationSpec \<Rightarrow> World \<Rightarrow>
    (error + BundleState) \<times> World" where
  "detectBundleState env spec w =
     (let withTrust = (\<lambda>bundleStatus currentFP previousFP w1.
            case SetTrustInfo env (Some bundleStatus) currentFP previousFP w1 of
              (Some e, w2) \<Rightarrow> (Inl e, w2)
            | (None, w2) \<Rightarrow> (Inr bundleStatus, w2))
      in
      if OnTrustAnchorSecretsDiff spec \<and> \<not> OnTrustRootsConfigMapChange spec then
        (case EnsureTrustSecrets env w of
           (Inl e, w1) \<Rightarrow> (Inl e, w1)
         | (Inr secretResult, w1) \<Rightarrow>
             withTrust (if Diverged secretResult then BundleStateOverlap else BundleStateSingle)
               (SecretCurrentFP secretResult) (SecretPreviousFP secretResult) w1)
      else if OnTrustRootsConfigMapChange spec \<and> \<not> OnTrustAnchorSecretsDiff spec then
        (case LoadAndInspectCMBundle env spec w of
           (Inl e, w1) \<Rightarrow> (Inl e, w1)
         | (Inr configMapResult, w1) \<Rightarrow>
             (let bundleStatus = (if State configMapResult = BundleStateOverlap
                                  then BundleStateOverlap else BundleStateSingle)
              in case Fps configMapResult of
                   [fp] \<Rightarrow> withTrust bundleStatus (''sha256:'' @ fp) (''sha256:'' @ fp) w1
                 | [fp0, fp1] \<Rightarrow> withTrust bundleStatus (''sha256:'' @ fp1) (''sha256:'' @ fp0) w1
                 | _ \<Rightarrow> (Inl (Error ''more than 2 or 0 fingerprints found in config map''), w1)))
      else if OnTrustAnchorSecretsDiff spec \<and> OnTrustRootsConfigMapChange spec then
        (case EnsureTrustSecrets env w of
           (Inl e, w1) \<Rightarrow> (Inl e, w1)
         | (Inr secretResult, w1) \<Rightarrow>
             (case LoadAndInspectCMBundle env spec w1 of
                (Inl e, w2) \<Rightarrow> (Inl e, w2)
              | (Inr configMapResult, w2) \<Rightarrow>
                  withTrust (if Diverged secretResult \<and> State configMapResult = BundleStateOverlap
                             then BundleStateOverlap else BundleStateSingle)
                    (SecretCurrentFP secretResult) (SecretPreviousFP secretResult) w2))
      else
        (Inl (Error (''no rotation trigger enabled: at least one of trigger.onConfigMapChange ''
            @ ''or trigger.requireSecretsDivergence must be true'')), w))"

text \<open>
  The two patterns of the orchestrator: \<open>if err != nil { return ctrl.Result{}, err }\<close>,
  and the same after \<open>MarkFailed\<close> with the error's text.
\<close>

definition orReturn :: "(World \<Rightarrow> error option \<times> World) \<Rightarrow>
    (World \<Rightarrow> (nat \<times> error option) \<times> World) \<Rightarrow> World \<Rightarrow> (nat \<times> error option) \<times> World" where
  "orReturn step rest w =
     (case step w of (None, w1) \<Rightarrow> rest w1 | (Some e, w1) \<Rightarrow> ((0, Some e), w1))"

definition orMarkFailed :: "Env \<Rightarrow> (World \<Rightarrow> error option \<times> World) \<Rightarrow>
    (World \<Rightarrow> (nat \<times> error option) \<times> World) \<Rightarrow> World \<Rightarrow> (nat \<times> error option) \<times> World" where
  "orMarkFailed env step rest w =
     (case step w of
        (None, w1) \<Rightarrow> rest w1
      | (Some (Error m), w1) \<Rightarrow>
          (case MarkFailed env ReasonRotationFailed m w1 of
             (Some e, w2) \<Rightarrow> ((0, Some e), w2)
           | (None, w2) \<Rightarrow> ((0, Some (Error m)), w2))
      | (Some Panic, w1) \<Rightarrow> ((0, Some Panic), w1))"

definition recordEvent :: "string \<Rightarrow> string \<Rightarrow> string \<Rightarrow> World \<Rightarrow> World" where
  "recordEvent eventtype reason message w = w\<lparr>trace := trace w @ [Event eventtype reason message]\<rparr>"

definition retriesExceeded :: "LinkerdTrustRotationSpec \<Rightarrow> LinkerdTrustRotationStatus \<Rightarrow> bool" where
  "retriesExceeded spec st =
     (case Retries st of None \<Rightarrow> False | Some r \<Rightarrow> Count r > MaxRolloutFailures spec)"

definition maxRetriesMessage :: "LinkerdTrustRotationSpec \<Rightarrow> LinkerdTrustRotationStatus \<Rightarrow> string" where
  "maxRetriesMessage spec st =
     ''max retry limit reached ('' @ showInt (case Retries st of None \<Rightarrow> 0 | Some r \<Rightarrow> Count r)
       @ '' > '' @ showInt (MaxRolloutFailures spec) @ ''); stopping rollout''"

text \<open>
  The body of \<open>if bundleStatus == BundleStateOverlap\<close> and the return that follows it:
  the dry run, the retry limit, and the rotation proper.
\<close>

definition rotation :: "Env \<Rightarrow> LinkerdTrustRotationSpec \<Rightarrow> World \<Rightarrow> (nat \<times> error option) \<times> World" where
  "rotation env spec w =
     (if DryRun spec then
        (case SelectLinkerdDataPlane env spec w of
           (Inl e, w1) \<Rightarrow> ((0, Some e), w1)
         | (Inr plane, w1) \<Rightarrow>
             (case yamlMarshal env
                     (map (\<lambda>item. (Kind item, Namespace item, Name item, Strategy item))
                        (Queue plane)) of
                Inl m \<Rightarrow> ((0, Some (Error m)), w1)
              | Inr dryRun \<Rightarrow>
                  orReturn (SetDryRunOutput env dryRun) (\<lambda>w2. ((0, None), w2)) w1))
      else if retriesExceeded spec (Status w) then
        orReturn
          (SetPhase env (Some PhaseFailed) (Some ReasonMaxRetriesExceeded)
             (Some (maxRetriesMessage spec (Status w))))
          (\<lambda>w2. ((60, None), w2))
          (recordEvent ''Warning'' ''MaxRetriesExceeded'' (maxRetriesMessage spec (Status w)) w)
      else
        orReturn
          (SetPhase env (Some PhaseDetecting) (Some ReasonSecretsDiverged)
             (Some (''Certificate mismatch detected for Linkerd trust anchor: ''
                @ TrustAnchorSecret spec @ '' vs '' @ PreviousTrustAnchorSecret spec)))
          (orReturn (waitWithPurpose env (BeforeRolloutDelay spec))
             (orReturn (DeleteSecrets env spec linkerdIdentityIssuerSecret)
                (orMarkFailed env (RestartLinkerdControlPlane env spec)
                   (orMarkFailed env (RestartLinkerdDataPlane env spec)
                      (orReturn (DeleteSecrets env spec (PreviousTrustAnchorSecret spec))
                         ((if RetriggerRolloutAfterCleanup spec
                           then (\<lambda>rest.
                                  orReturn (waitWithPurpose env (HoldAfterCleanup spec))
                                    (orReturn
                                       (\<lambda>v. case EnsureTrustSecrets env v of
                                               (Inl e, v1) \<Rightarrow> (Some e, v1)
                                             | (Inr _, v1) \<Rightarrow> (None, v1))
                                       (orMarkFailed env (RestartLinkerdDataPlane env spec) rest)))
                           else (\<lambda>rest. rest))
                            (orReturn
                               (MarkSucceeded env
                                  ''Linkerd trust anchor certificate rotation completed successfully'')
                               (\<lambda>v. ((frequency, None), v))))))))) w)"

definition reconcileStart :: "Env \<Rightarrow> World \<Rightarrow> error option \<times> World" where
  "reconcileStart env =
     andThen
       (SetPhase env (Some PhaseIdle) (Some [])
          (Some ''Starting to watch for changes to the Linkerd trust anchor certificate''))
       (SetProgress env True None None)"

text \<open>
  \<open>Reconcile\<close>, from the point where the rotation resource has been fetched: \<open>spec\<close> is
  its spec and the status of the world is its status.
\<close>

definition Reconcile :: "Env \<Rightarrow> LinkerdTrustRotationSpec \<Rightarrow> World \<Rightarrow> (nat \<times> error option) \<times> World" where
  "Reconcile env spec =
     orReturn (reconcileStart env)
       (\<lambda>w2. case detectBundleState env spec w2 of
               (Inl e, w3) \<Rightarrow> ((0, Some e), w3)
             | (Inr bundleStatus, w3) \<Rightarrow>
                 if bundleStatus = BundleStateOverlap then rotation env spec w3
                 else ((frequency, None), w3))"

section \<open>Observations and sample inputs\<close>

text \<open>The retry count a status holds: \<open>0\<close> when it holds no retry record.\<close>

definition retryCount :: "LinkerdTrustRotationStatus \<Rightarrow> int" where
  "retryCount st = (case Retries st of None \<Rightarrow> 0 | Some r \<Rightarrow> Count r)"

text \<open>
  The steps of one item as the specification lists them: apply the restart, wait for
  completion, optionally verify. The restart is the bump of the restart annotation for a
  DaemonSet, a Deployment and a StatefulSet with strategy \<open>rolloutRestart\<close>, the
  deletion of the pods one by one for a StatefulSet with strategy \<open>rolloutDelete\<close>
  (which waits for each pod itself), and, for a custom resource, the check that the
  bump annotation is there followed by the bump of it. \<open>itemSteps\<close> gives the steps
  with the reference to the item, for an item that carries the object of its kind.
  \<open>runSteps\<close> runs steps in order up to the first that returns an error.
\<close>

definition requireBump :: "WorkItem \<Rightarrow> Unstructured \<Rightarrow> World \<Rightarrow> error option \<times> World" where
  "requireBump item cr w =
     (if BumpAnnotationKey item = [] \<or> BumpAnnotationValue item = []
      then (Some (Error (''BumpAnnotationKey, BumpAnnotationValue is required for custom resources ''
                    @ GetKind cr)), w)
      else (None, w))"

definition itemSteps :: "Env \<Rightarrow> LinkerdTrustRotationSpec \<Rightarrow> WorkItem \<Rightarrow>
    (WorkRef \<times> (World \<Rightarrow> error option \<times> World) list) option" where
  "itemSteps env spec item =
     (case (getNamespace item, getName item) of
        (Some ns, Some nm) \<Rightarrow>
          map_option (\<lambda>steps. (\<lparr>refKind = Kind item, refNamespace = ns, refName = nm\<rparr>,
                                steps @ [runProxyCheckIfEnabled env spec ns nm]))
            (if Kind item = KindDaemonSet then
               map_option (\<lambda>ds. [bumpRestartAnnotation env KindDaemonSet ds,
                                  waitRollout env KindDaemonSet ns nm]) (Ds item)
             else if Kind item = KindDeployment then
               map_option (\<lambda>dep. [bumpRestartAnnotation env KindDeployment dep,
                                   waitRollout env KindDeployment ns nm]) (Dep item)
             else if Kind item = KindStatefulSet then
               map_option (\<lambda>sts.
                   if Strategy item = Restart
                   then [bumpRestartAnnotation env KindStatefulSet sts,
                         waitRollout env KindStatefulSet ns nm]
                   else if Strategy item = Delete
                   then [restartStatefulSetByDelete env sts rolloutPerLimit]
                   else []) (Sts item)
             else if Kind item = KindCR then
               map_option (\<lambda>cr. [requireBump item cr,
                                  bumpAnnotationUnstructured env cr (BumpAnnotationKey item)
                                    (BumpAnnotationValue item),
                                  waitRollout env KindCR ns nm]) (CR item)
             else None)
      | _ \<Rightarrow> None)"

fun runSteps :: "(World \<Rightarrow> error option \<times> World) list \<Rightarrow> World \<Rightarrow> error option \<times> World" where
  "runSteps [] w = (None, w)"
| "runSteps (step # steps) w =
     (case step w of (None, w1) \<Rightarrow> runSteps steps w1 | (Some e, w1) \<Rightarrow> (Some e, w1))"

text \<open>The 64-bit integers of Go.\<close>

definition isInt64 :: "int \<Rightarrow> bool" where
  "isInt64 x \<longleftrightarrow> - (2 ^ 63) \<le> x \<and> x < 2 ^ 63"



text \<open>
  Two readings of an item's identity. \<open>stableKey\<close> is the identity the specification
  names: kind, namespace, name, strategy, bump key and bump value. \<open>hashedKey\<close> is the
  part of it that the code writes into the digest: the strategy only for StatefulSets and
  custom resources, the bump pair only for a custom resource with a non-empty bump key.
  \<open>separatorFree\<close> says that the item's object is present and that no field contains
  the separator that ends it in the digested text (names of cluster objects never do).
\<close>

definition stableKey :: "WorkItem \<Rightarrow> string \<times> string option \<times> string option \<times> string \<times> string \<times> string" where
  "stableKey w =
     (Kind w, getNamespace w, getName w, Strategy w, BumpAnnotationKey w, BumpAnnotationValue w)"

definition hashedKey :: "WorkItem \<Rightarrow> string \<times> string option \<times> string option \<times> string \<times> (string \<times> string) option" where
  "hashedKey w =
     (Kind w,
      (if knownKind (Kind w) then getNamespace w else None),
      (if knownKind (Kind w) then getName w else None),
      (if Kind w = KindStatefulSet \<or> Kind w = KindCR then Strategy w else []),
      (if Kind w = KindCR \<and> BumpAnnotationKey w \<noteq> []
       then Some (BumpAnnotationKey w, BumpAnnotationValue w) else None))"

text \<open>
  The line of one item in the words of the specification:
  \<open>kind | namespace/name | strategy | (bumpKey=bumpValue)?\<close> and a newline.
\<close>

definition specItemText :: "WorkItem \<Rightarrow> string \<Rightarrow> string \<Rightarrow> string" where
  "specItemText w ns nm =
     Kind w @ ''|'' @ ns @ ''/'' @ nm @ ''|'' @ Strategy w
       @ (if BumpAnnotationKey w \<noteq> []
          then ''|'' @ BumpAnnotationKey w @ ''='' @ BumpAnnotationValue w else [])
       @ [CHR 0x0A]"

definition lacks :: "char \<Rightarrow> string \<Rightarrow> bool" where
  "lacks c s \<longleftrightarrow> c \<notin> set s"

definition separatorFree :: "WorkItem \<Rightarrow> bool" where
  "separatorFree w \<longleftrightarrow>
     lacks (CHR ''|'') (Kind w) \<and> lacks (CHR 0x0A) (Kind w)
     \<and> (case getNamespace w of
          None \<Rightarrow> False
        | Some ns \<Rightarrow> lacks (CHR ''/'') ns \<and> lacks (CHR ''|'') ns \<and> lacks (CHR 0x0A) ns)
     \<and> (case getName w of
          None \<Rightarrow> False
        | Some nm \<Rightarrow> lacks (CHR ''|'') nm \<and> lacks (CHR 0x0A) nm)
     \<and> lacks (CHR ''|'') (Strategy w) \<and> lacks (CHR 0x0A) (Strategy w)
     \<and> lacks (CHR ''='') (BumpAnnotationKey w) \<and> lacks (CHR 0x0A) (BumpAnnotationKey w)
     \<and> lacks (CHR 0x0A) (BumpAnnotationValue w)"

text \<open>
  What the controller did to the cluster, apart from its own status and events: the
  writes among the actions.
\<close>

fun clusterWrites :: "Action list \<Rightarrow> Action list" where
  "clusterWrites [] = []"
| "clusterWrites (StatusPatch st # as) = clusterWrites as"
| "clusterWrites (Event t r m # as) = clusterWrites as"
| "clusterWrites (ObservePod ns nm r # as) = clusterWrites as"
| "clusterWrites (a # as) = a # clusterWrites as"

fun events :: "Action list \<Rightarrow> (string \<times> string \<times> string) list" where
  "events [] = []"
| "events (Event t r m # as) = (t, r, m) # events as"
| "events (_ # as) = events as"

text \<open>
  What a bundle holds: the blocks that successive calls of \<open>pem.Decode\<close> find, and
  among them those of type \<open>CERTIFICATE\<close>.
\<close>

function pemBlocks :: "Env \<Rightarrow> string \<Rightarrow> PemBlock list" where
  "pemBlocks env rest =
     (if rest = [] then []
      else (case pemDecode env rest of
              None \<Rightarrow> []
            | Some (blk, n) \<Rightarrow> blk # pemBlocks env (drop (Suc n) rest)))"
  by pat_completeness auto
termination
  by (relation "measure (\<lambda>(env, rest). length rest)") auto

declare pemBlocks.simps [simp del]

definition certificateBlocks :: "Env \<Rightarrow> string \<Rightarrow> PemBlock list" where
  "certificateBlocks env raw = filter (\<lambda>b. BlockType b = ''CERTIFICATE'') (pemBlocks env raw)"

definition parses :: "Env \<Rightarrow> PemBlock \<Rightarrow> bool" where
  "parses env b = (case x509ParseCertificate env (BlockBytes b) of Inl _ \<Rightarrow> False | Inr _ \<Rightarrow> True)"

definition parsedCerts :: "Env \<Rightarrow> PemBlock list \<Rightarrow> Certificate list" where
  "parsedCerts env bs =
     concat (map (\<lambda>b. case x509ParseCertificate env (BlockBytes b) of Inl _ \<Rightarrow> [] | Inr c \<Rightarrow> [c]) bs)"

definition fingerprint :: "Env \<Rightarrow> Certificate \<Rightarrow> string" where
  "fingerprint env c = toLower (hexEncodeToString (sha256Sum env (Raw c)))"

definition failed :: "error + 'a \<Rightarrow> bool" where
  "failed r = (case r of Inl _ \<Rightarrow> True | Inr _ \<Rightarrow> False)"

text \<open>What a test of the recorder observes: the patches issued so far.\<close>

fun statusPatches :: "Action list \<Rightarrow> LinkerdTrustRotationStatus list" where
  "statusPatches [] = []"
| "statusPatches (StatusPatch st # as) = st # statusPatches as"
| "statusPatches (_ # as) = statusPatches as"

text \<open>
  The contract of a mutator in the words of the specification, for a run from \<open>w\<close>
  with result \<open>res\<close>. The mutation is applied to a copy of the live status. When the
  copy equals the live status, \<open>LastUpdated\<close> ignored, the run returns no error,
  writes nothing and leaves the status as it was. Otherwise \<open>LastUpdated\<close> of the copy
  is stamped with the clock, the copy becomes the status, exactly one patch carrying it
  is issued, and the answer of the API to that patch is returned. \<open>reads\<close> is the
  number of clock readings the mutator takes for its own arguments before that.
\<close>

definition mutatorContract :: "('e StatusEnv_scheme) \<Rightarrow>
    (LinkerdTrustRotationStatus \<Rightarrow> LinkerdTrustRotationStatus) \<Rightarrow> nat \<Rightarrow> World \<Rightarrow>
    error option \<times> World \<Rightarrow> bool" where
  "mutatorContract env mutation reads w res \<longleftrightarrow>
     (let copy = mutation (Status w);
          stamped = copy\<lparr>LastUpdated := Some (timeNow env (calls w + reads))\<rparr>
      in if copy\<lparr>LastUpdated := LastUpdated (Status w)\<rparr> = Status w
         then res = (None, w\<lparr>calls := calls w + reads\<rparr>)
         else res = (map_option Error (statusPatchErr env (calls w + reads + 1)),
                     w\<lparr>Status := stamped, calls := calls w + reads + 2,
                       trace := trace w @ [StatusPatch stamped]\<rparr>))"

text \<open>
  Two runs of a mutator in succession: the second returns no error and changes nothing,
  and the two together have issued the patch of the mutated status when the mutation
  changed something, and no patch otherwise.
\<close>

definition secondRunSilent :: "('e StatusEnv_scheme) \<Rightarrow>
    (LinkerdTrustRotationStatus \<Rightarrow> LinkerdTrustRotationStatus) \<Rightarrow>
    (World \<Rightarrow> error option \<times> World) \<Rightarrow> World \<Rightarrow> bool" where
  "secondRunSilent env mutation m w \<longleftrightarrow>
     m (snd (m w)) = (None, snd (m w))
     \<and> statusPatches (trace (snd (m (snd (m w))))) =
         statusPatches (trace w) @
           (if (mutation (Status w))\<lparr>LastUpdated := LastUpdated (Status w)\<rparr> = Status w then []
            else [(mutation (Status w))\<lparr>LastUpdated := Some (timeNow env (calls w))\<rparr>])"

definition emptyStatus :: LinkerdTrustRotationStatus where
  "emptyStatus = \<lparr>Phase = None, Reason = None, Message = None, StartedAt = None,
     LastUpdated = None, CompletionTime = None, Progress = None, Trust = None,
     Retries = None, Cursor = None, DryRunOutput = []\<rparr>"

definition world0 :: World where
  "world0 = \<lparr>Status = emptyStatus, calls = 0, trace = []\<rparr>"

text \<open>A cluster in which every call succeeds and nothing is listed.\<close>

definition calmEnv :: Env where
  "calmEnv = \<lparr>timeNow = (\<lambda>n. 1000 + n), statusPatchErr = (\<lambda>n. None),
     listWorkloads = (\<lambda>n kind ns. ApiOK []),
     listCustomResources = (\<lambda>n gvk ns. ApiOK []),
     listControlPlane = (\<lambda>n ns. ApiOK []),
     listPods = (\<lambda>n ns sel. ApiOK []),
     writeResult = (\<lambda>n a. ApiOK ()),
     waitRolledOut = (\<lambda>n kind ns nm. None),
     runLinkerdCheckJob = (\<lambda>n image targetNs jobNs nm. None),
     podPolls = (\<lambda>n period timeout ns nm. []),
     ensureTrustSecrets = (\<lambda>n. Inl ''secret not found''),
     getConfigMap = (\<lambda>n ns nm. ApiNotFound ''not found''),
     waitCancelled = (\<lambda>n. None),
     newRequirementErr = (\<lambda>v. None),
     labelSelectorAsSelector = (\<lambda>sel. Inr sel),
     pemDecode = (\<lambda>s. None),
     x509ParseCertificate = (\<lambda>der. Inr \<lparr>Raw = der\<rparr>),
     sha256Sum = (\<lambda>s. []),
     formatRFC3339 = (\<lambda>t. ''2025-01-01T00:00:00Z''),
     yamlMarshal = (\<lambda>items. Inr (concat (map (\<lambda>i. ''- name: '' @ fst (snd (snd i)) @ [CHR 0x0A]) items)))\<rparr>"

text \<open>
  A cluster whose trust bundle is \<open>raw\<close>, read with a toy decoder: every character is
  one block, \<open>C\<close> a certificate, \<open>X\<close> a \<open>CERTIFICATE\<close> block that is not valid
  DER, anything else a block of another type. The digest of a certificate is one byte.
\<close>

definition bundleEnv :: "string \<Rightarrow> Env" where
  "bundleEnv raw = calmEnv\<lparr>
     getConfigMap := (\<lambda>n ns nm. ApiOK [configMapDataKey \<mapsto> raw]),
     pemDecode := (\<lambda>s. case s of
         [] \<Rightarrow> None
       | c # _ \<Rightarrow> Some (\<lparr>BlockType = (if c = CHR ''C'' \<or> c = CHR ''X'' then ''CERTIFICATE''
                                        else ''PRIVATE KEY''),
                          BlockBytes = [c]\<rparr>, 0)),
     x509ParseCertificate := (\<lambda>der. if der = ''X'' then Inl ''malformed certificate''
                                    else Inr \<lparr>Raw = der\<rparr>),
     sha256Sum := (\<lambda>der. [int (length der) + 170])\<rparr>"

definition sampleWorkload :: "string \<Rightarrow> string \<Rightarrow> Workload" where
  "sampleWorkload ns nm = \<lparr>objNamespace = ns, objName = nm, ResourceVersion = ''1'',
     TemplateAnnotations = Some [''linkerd.io/inject'' \<mapsto> ''enabled''], Selector = ''app='' @ nm\<rparr>"

definition sampleSpec :: LinkerdTrustRotationSpec where
  "sampleSpec = \<lparr>LinkerdNamespace = ''linkerd'', TrustRootsConfigMap = ''linkerd-identity-trust-roots'',
     TrustAnchorSecret = ''linkerd-trust-anchor'',
     PreviousTrustAnchorSecret = ''linkerd-previous-anchor'', BootstrapPreviousSecret = True,
     OnTrustRootsConfigMapChange = True, OnTrustAnchorSecretsDiff = False,
     SelectorKey = ''linkerd.io/inject'', SelectorValue = ''enabled'',
     Targets = [\<lparr>KindType = KindDeployment, AllowedNamespaces = [''ns1''], RolloutStrategy = [],
        APIGroup = [], ScopeKind = [], Version = [], AnnotationBump = None\<rparr>],
     RunLinkerdCheckProxy = False, LinkerdCheckProxyImage = [], BeforeRolloutDelay = None,
     RetriggerRolloutAfterCleanup = False, HoldAfterCleanup = None, MaxRolloutFailures = 2,
     DryRun = False\<rparr>"

text \<open>
  A cluster in which every namespace lists the workloads of the given names, in that
  order, all of them meshed; and the hash of the plan of the Deployments \<open>a\<close> and
  \<open>b\<close> of namespace \<open>ns1\<close>.
\<close>

definition listingEnv :: "string list \<Rightarrow> Env" where
  "listingEnv names = calmEnv\<lparr>listWorkloads := (\<lambda>n kind ns. ApiOK (map (sampleWorkload ns) names))\<rparr>"


definition tickingEnv :: StatusEnv where
  "tickingEnv = \<lparr>timeNow = (\<lambda>n. 1000 + n), statusPatchErr = (\<lambda>n. None)\<rparr>"

section \<open>Theorems\<close>

subsection \<open>Status recorder: helper lemmas\<close>

lemma Patch_equal:
  "statusEqual (Status w) (mutate (Status w)) \<Longrightarrow> Patch env mutate w = (None, w)"
  by (simp add: Patch_def)

lemma Patch_changed:
  "\<not> statusEqual (Status w) (mutate (Status w)) \<Longrightarrow>
   Patch env mutate w =
     (map_option Error (statusPatchErr env (calls w + 1)),
      w\<lparr>Status := (mutate (Status w))\<lparr>LastUpdated := Some (timeNow env (calls w))\<rparr>,
        calls := calls w + 2,
        trace := trace w @
          [StatusPatch ((mutate (Status w))\<lparr>LastUpdated := Some (timeNow env (calls w))\<rparr>)]\<rparr>)"
  by (simp add: Patch_def readClock_def Let_def)

lemma statusEqual_stamp: "statusEqual a (b\<lparr>LastUpdated := t\<rparr>) = statusEqual a b"
  by (simp add: statusEqual_def)

lemma statusPatches_append:
  "statusPatches (xs @ ys) = statusPatches xs @ statusPatches ys"
  by (induction xs rule: statusPatches.induct) simp_all

lemma Patch_twice:
  assumes idem: "\<And>st. mutate (mutate st) = mutate st"
      and comm: "\<And>st t. mutate (st\<lparr>LastUpdated := t\<rparr>) = (mutate st)\<lparr>LastUpdated := t\<rparr>"
  shows "Patch env mutate (snd (Patch env mutate w)) = (None, snd (Patch env mutate w))"
proof (cases "statusEqual (Status w) (mutate (Status w))")
  case True
  then show ?thesis by (simp add: Patch_equal)
next
  case False
  have "statusEqual (Status (snd (Patch env mutate w))) (mutate (Status (snd (Patch env mutate w))))"
    using False by (simp add: Patch_changed comm idem statusEqual_def)
  then show ?thesis by (rule Patch_equal)
qed

lemma SetRetry_no_clock:
  "cnt \<le> 0 \<or> e = [] \<Longrightarrow>
   SetRetry env ref cnt e = Patch env (\<lambda>st. st\<lparr>Retries :=
      Some \<lparr>Count = cnt, LastError = e, LastFailed = ref, LastErrorTime = Some 0\<rparr>\<rparr>)"
  by (auto simp add: SetRetry_def fun_eq_iff)

lemma statusEqual_copy:
  "statusEqual before after \<longleftrightarrow> after\<lparr>LastUpdated := LastUpdated before\<rparr> = before"
  by (cases before; cases after) (auto simp add: statusEqual_def)

lemma Patch_contract:
  "mutatorContract env mutate 0 w (Patch env mutate w)"
  by (cases "statusEqual (Status w) (mutate (Status w))")
     (simp_all add: mutatorContract_def Patch_equal Patch_changed Let_def
        statusEqual_copy [symmetric])

lemma Patch_contract_after_read:
  "mutatorContract env mutate (Suc 0) w (Patch env mutate (w\<lparr>calls := Suc (calls w)\<rparr>))"
  by (cases "statusEqual (Status w) (mutate (Status w))")
     (simp_all add: mutatorContract_def Patch_equal Patch_changed Let_def
        statusEqual_copy [symmetric])

lemma Patch_second_run:
  assumes idem: "\<And>st. mutate (mutate st) = mutate st"
      and comm: "\<And>st t. mutate (st\<lparr>LastUpdated := t\<rparr>) = (mutate st)\<lparr>LastUpdated := t\<rparr>"
  shows "secondRunSilent env mutate (Patch env mutate) w"
proof (cases "statusEqual (Status w) (mutate (Status w))")
  case True
  then show ?thesis
    by (simp add: secondRunSilent_def Patch_equal statusEqual_copy [symmetric])
next
  case False
  have "Patch env mutate (snd (Patch env mutate w)) = (None, snd (Patch env mutate w))"
    by (rule Patch_twice [OF idem comm])
  then show ?thesis
    using False
    by (simp add: secondRunSilent_def statusEqual_copy [symmetric])
       (simp add: Patch_changed statusPatches_append)
qed

subsection \<open>Claim C5\<close>

text \<open>
  C5 (as amended). Every mutator of the status recorder keeps the contract: it applies
  its mutation to a copy of the live status; when the copy equals the live status,
  \<open>LastUpdated\<close> ignored, it returns without a write and the status stays as it was;
  otherwise it stamps \<open>LastUpdated\<close> with the clock, makes the copy the status, issues
  exactly one patch carrying it and returns the answer of the API. The mutations are: the
  three arguments for \<open>SetPhase\<close>; readiness and percentage for \<open>SetProgress\<close>; the
  trust record for \<open>SetTrustInfo\<close>; the cursor for \<open>SetPlanHash\<close>; the retry record
  for \<open>SetRetry\<close>, with the clock as \<open>lastErrorTime\<close> when the count is positive and
  the error non-empty; phase, reason, message, output and no progress for
  \<open>SetDryRunOutput\<close>; phase, reason, message and the clock as \<open>completionTime\<close> for
  \<open>MarkSucceeded\<close> and \<open>MarkFailed\<close>. A mutator that writes no clock reading into
  a compared field (\<open>SetPhase\<close>, \<open>SetProgress\<close>, \<open>SetTrustInfo\<close>, \<open>SetPlanHash\<close>,
  \<open>SetDryRunOutput\<close>, and \<open>SetRetry\<close> with a count that is not positive or an empty
  error) run twice in succession with the same arguments writes nothing the second
  time: the two runs issue one patch when the mutation changed something and none
  otherwise.
\<close>

theorem status_mutators_diff_gated:
  "mutatorContract env (\<lambda>st. st\<lparr>Phase := p, Reason := r, Message := msg\<rparr>) 0 w
     (SetPhase env p r msg w)
   \<and> mutatorContract env
       (\<lambda>st. st\<lparr>Progress := Some \<lparr>ControlPlaneReady = cp,
          DataPlanePercent = (case (cur, tot) of (Some c, Some t) \<Rightarrow> calcPercent c t | _ \<Rightarrow> 0)\<rparr>\<rparr>)
       0 w (SetProgress env cp cur tot w)
   \<and> mutatorContract env
       (\<lambda>st. st\<lparr>Trust := Some \<lparr>TrustBundleState = b, CurrentFP = fp1, PreviousFP = fp2\<rparr>\<rparr>)
       0 w (SetTrustInfo env b fp1 fp2 w)
   \<and> mutatorContract env
       (\<lambda>st. st\<lparr>Cursor := Some \<lparr>PlanHash = h, Next = n, Total = t, LastDone = ref\<rparr>\<rparr>)
       0 w (SetPlanHash env ref n t h w)
   \<and> mutatorContract env
       (\<lambda>st. st\<lparr>Retries := Some \<lparr>Count = cnt, LastError = e, LastFailed = ref',
          LastErrorTime = Some (if 0 < cnt \<and> e \<noteq> [] then timeNow env (calls w) else 0)\<rparr>\<rparr>)
       (if 0 < cnt \<and> e \<noteq> [] then 1 else 0) w (SetRetry env ref' cnt e w)
   \<and> mutatorContract env
       (\<lambda>st. st\<lparr>Phase := Some PhaseDryRun, Reason := Some ReasonDryRun,
          Message := Some ''The data-plane dry run has completed successfully'',
          DryRunOutput := out, Progress := None\<rparr>)
       0 w (SetDryRunOutput env out w)
   \<and> mutatorContract env
       (\<lambda>st. st\<lparr>Phase := Some PhaseSucceeded, Reason := Some ''Completed'', Message := Some smsg,
          CompletionTime := Some (timeNow env (calls w))\<rparr>)
       1 w (MarkSucceeded env smsg w)
   \<and> mutatorContract env
       (\<lambda>st. st\<lparr>Phase := Some PhaseFailed, Reason := Some frs, Message := Some fmsg,
          CompletionTime := Some (timeNow env (calls w))\<rparr>)
       1 w (MarkFailed env frs fmsg w)
   \<and> secondRunSilent env (\<lambda>st. st\<lparr>Phase := p, Reason := r, Message := msg\<rparr>)
       (SetPhase env p r msg) w
   \<and> secondRunSilent env
       (\<lambda>st. st\<lparr>Progress := Some \<lparr>ControlPlaneReady = cp,
          DataPlanePercent = (case (cur, tot) of (Some c, Some t) \<Rightarrow> calcPercent c t | _ \<Rightarrow> 0)\<rparr>\<rparr>)
       (SetProgress env cp cur tot) w
   \<and> secondRunSilent env
       (\<lambda>st. st\<lparr>Trust := Some \<lparr>TrustBundleState = b, CurrentFP = fp1, PreviousFP = fp2\<rparr>\<rparr>)
       (SetTrustInfo env b fp1 fp2) w
   \<and> secondRunSilent env
       (\<lambda>st. st\<lparr>Cursor := Some \<lparr>PlanHash = h, Next = n, Total = t, LastDone = ref\<rparr>\<rparr>)
       (SetPlanHash env ref n t h) w
   \<and> secondRunSilent env
       (\<lambda>st. st\<lparr>Phase := Some PhaseDryRun, Reason := Some ReasonDryRun,
          Message := Some ''The data-plane dry run has completed successfully'',
          DryRunOutput := out, Progress := None\<rparr>)
       (SetDryRunOutput env out) w
   \<and> (cnt \<le> 0 \<or> e = [] \<longrightarrow>
       secondRunSilent env
         (\<lambda>st. st\<lparr>Retries := Some \<lparr>Count = cnt, LastError = e, LastFailed = ref',
            LastErrorTime = Some 0\<rparr>\<rparr>)
         (SetRetry env ref' cnt e) w)"
proof -
  have retry: "mutatorContract env
       (\<lambda>st. st\<lparr>Retries := Some \<lparr>Count = cnt, LastError = e, LastFailed = ref',
          LastErrorTime = Some (if 0 < cnt \<and> e \<noteq> [] then timeNow env (calls w) else 0)\<rparr>\<rparr>)
       (if 0 < cnt \<and> e \<noteq> [] then 1 else 0) w (SetRetry env ref' cnt e w)"
  proof (cases "0 < cnt \<and> e \<noteq> []")
    case True
    then have c: "(0 < cnt \<and> e \<noteq> []) = True" by simp
    show ?thesis
      unfolding c if_True
      using True by (simp add: SetRetry_def readClock_def Patch_contract_after_read)
  next
    case False
    then have c: "(0 < cnt \<and> e \<noteq> []) = False" by simp
    from False have "cnt \<le> 0 \<or> e = []" by auto
    then have eq: "SetRetry env ref' cnt e = Patch env (\<lambda>st. st\<lparr>Retries :=
          Some \<lparr>Count = cnt, LastError = e, LastFailed = ref', LastErrorTime = Some 0\<rparr>\<rparr>)"
      by (rule SetRetry_no_clock)
    show ?thesis
      unfolding c if_False eq by (rule Patch_contract)
  qed
  have retry2: "secondRunSilent env
         (\<lambda>st. st\<lparr>Retries := Some \<lparr>Count = cnt, LastError = e, LastFailed = ref',
            LastErrorTime = Some 0\<rparr>\<rparr>)
         (SetRetry env ref' cnt e) w" if "cnt \<le> 0 \<or> e = []"
    unfolding SetRetry_no_clock [OF that] by (rule Patch_second_run) simp_all
  have succeeded: "mutatorContract env
       (\<lambda>st. st\<lparr>Phase := Some PhaseSucceeded, Reason := Some ''Completed'', Message := Some smsg,
          CompletionTime := Some (timeNow env (calls w))\<rparr>)
       1 w (MarkSucceeded env smsg w)"
    by (simp add: MarkSucceeded_def readClock_def Patch_contract_after_read)
  have failed: "mutatorContract env
       (\<lambda>st. st\<lparr>Phase := Some PhaseFailed, Reason := Some frs, Message := Some fmsg,
          CompletionTime := Some (timeNow env (calls w))\<rparr>)
       1 w (MarkFailed env frs fmsg w)"
    by (simp add: MarkFailed_def readClock_def Patch_contract_after_read)
  show ?thesis
    unfolding SetPhase_def SetProgress_def SetTrustInfo_def SetPlanHash_def
      SetDryRunOutput_def Let_def
    using retry retry2 succeeded failed
    by (intro conjI impI Patch_contract Patch_second_run) simp_all
qed

theorem status_mutators_diff_gated_witness:
  "SetPhase tickingEnv (Some PhaseIdle) (Some []) None world0 =
     (None, \<lparr>Status = emptyStatus\<lparr>Phase := Some PhaseIdle, Reason := Some [],
                LastUpdated := Some 1000\<rparr>,
             calls = 2,
             trace = [StatusPatch (emptyStatus\<lparr>Phase := Some PhaseIdle, Reason := Some [],
                LastUpdated := Some 1000\<rparr>)]\<rparr>)
   \<and> statusPatches (trace (snd (SetRetry tickingEnv None 0 []
        (snd (SetRetry tickingEnv None 0 [] world0))))) =
       [emptyStatus\<lparr>Retries := Some \<lparr>Count = 0, LastError = [], LastFailed = None,
          LastErrorTime = Some 0\<rparr>, LastUpdated := Some 1000\<rparr>]"
proof -
  note T = status_mutators_diff_gated [where env = tickingEnv and p = "Some PhaseIdle"
      and r = "Some []" and msg = None and w = world0 and cnt = 0 and e = "[]" and ref' = None]
  have a: "SetPhase tickingEnv (Some PhaseIdle) (Some []) None world0 =
     (None, \<lparr>Status = emptyStatus\<lparr>Phase := Some PhaseIdle, Reason := Some [],
                LastUpdated := Some 1000\<rparr>,
             calls = 2,
             trace = [StatusPatch (emptyStatus\<lparr>Phase := Some PhaseIdle, Reason := Some [],
                LastUpdated := Some 1000\<rparr>)]\<rparr>)"
    using T [THEN conjunct1]
    by (simp add: mutatorContract_def world0_def emptyStatus_def tickingEnv_def Let_def)
  have sr: "secondRunSilent tickingEnv
         (\<lambda>st. st\<lparr>Retries := Some \<lparr>Count = 0, LastError = [], LastFailed = None,
            LastErrorTime = Some 0\<rparr>\<rparr>)
         (SetRetry tickingEnv None 0 []) world0"
    using T [THEN conjunct2, THEN conjunct2, THEN conjunct2, THEN conjunct2, THEN conjunct2,
        THEN conjunct2, THEN conjunct2, THEN conjunct2, THEN conjunct2, THEN conjunct2,
        THEN conjunct2, THEN conjunct2, THEN conjunct2]
    by simp
  have b: "statusPatches (trace (snd (SetRetry tickingEnv None 0 []
        (snd (SetRetry tickingEnv None 0 [] world0))))) =
       [emptyStatus\<lparr>Retries := Some \<lparr>Count = 0, LastError = [], LastFailed = None,
          LastErrorTime = Some 0\<rparr>, LastUpdated := Some 1000\<rparr>]"
    using sr [unfolded secondRunSilent_def, THEN conjunct2]
    by (simp add: world0_def emptyStatus_def tickingEnv_def)
  show ?thesis
    using a b by simp
qed

theorem mark_failed_twice_patches_twice:
  "length (statusPatches (trace (snd (MarkFailed tickingEnv ''RotationFailed'' ''boom''
      (snd (MarkFailed tickingEnv ''RotationFailed'' ''boom'' world0)))))) = 2"
  by (simp add: MarkFailed_def Patch_def readClock_def statusEqual_def world0_def emptyStatus_def
      tickingEnv_def Let_def)

subsection \<open>Rollout engine: helper lemmas\<close>

lemma statusEqual_fields:
  assumes "statusEqual a b"
  shows "Phase a = Phase b" and "Reason a = Reason b" and "Message a = Message b"
    and "StartedAt a = StartedAt b" and "CompletionTime a = CompletionTime b"
    and "Progress a = Progress b" and "Trust a = Trust b" and "Retries a = Retries b"
    and "Cursor a = Cursor b" and "DryRunOutput a = DryRunOutput b"
proof -
  have e: "a\<lparr>LastUpdated := None\<rparr> = b\<lparr>LastUpdated := None\<rparr>"
    using assms by (simp add: statusEqual_def)
  show "Phase a = Phase b" using arg_cong [OF e, of Phase] by simp
  show "Reason a = Reason b" using arg_cong [OF e, of Reason] by simp
  show "Message a = Message b" using arg_cong [OF e, of Message] by simp
  show "StartedAt a = StartedAt b" using arg_cong [OF e, of StartedAt] by simp
  show "CompletionTime a = CompletionTime b" using arg_cong [OF e, of CompletionTime] by simp
  show "Progress a = Progress b" using arg_cong [OF e, of Progress] by simp
  show "Trust a = Trust b" using arg_cong [OF e, of Trust] by simp
  show "Retries a = Retries b" using arg_cong [OF e, of Retries] by simp
  show "Cursor a = Cursor b" using arg_cong [OF e, of Cursor] by simp
  show "DryRunOutput a = DryRunOutput b" using arg_cong [OF e, of DryRunOutput] by simp
qed

lemma Patch_fields:
  "Phase (Status (snd (Patch env mutate w))) = Phase (mutate (Status w))"
  "Reason (Status (snd (Patch env mutate w))) = Reason (mutate (Status w))"
  "Message (Status (snd (Patch env mutate w))) = Message (mutate (Status w))"
  "StartedAt (Status (snd (Patch env mutate w))) = StartedAt (mutate (Status w))"
  "CompletionTime (Status (snd (Patch env mutate w))) = CompletionTime (mutate (Status w))"
  "Progress (Status (snd (Patch env mutate w))) = Progress (mutate (Status w))"
  "Trust (Status (snd (Patch env mutate w))) = Trust (mutate (Status w))"
  "Retries (Status (snd (Patch env mutate w))) = Retries (mutate (Status w))"
  "Cursor (Status (snd (Patch env mutate w))) = Cursor (mutate (Status w))"
  "DryRunOutput (Status (snd (Patch env mutate w))) = DryRunOutput (mutate (Status w))"
  by (cases "statusEqual (Status w) (mutate (Status w))";
      simp add: Patch_equal Patch_changed statusEqual_fields)+

lemma Patch_no_error:
  assumes "\<And>n. statusPatchErr env n = None"
  shows "fst (Patch env mutate w) = None"
  using assms by (simp add: Patch_def readClock_def Let_def)

lemma Patch_error_cases:
  "fst (Patch env mutate w) = None \<or> (\<exists>m. fst (Patch env mutate w) = Some (Error m))"
  by (cases "statusPatchErr env (Suc (calls w))") (simp_all add: Patch_def readClock_def Let_def)

lemma patchObject_Status [simp]: "Status (snd (patchObject env a w)) = Status w"
  by (simp add: patchObject_def apiWrite_def split: ApiResult.splits)

lemma bumpRestartAnnotation_Status [simp]:
  "Status (snd (bumpRestartAnnotation env kind obj w)) = Status w"
  by (simp add: bumpRestartAnnotation_def bumpAnnotationGeneric_def readClock_def)

lemma bumpAnnotationUnstructured_Status [simp]:
  "Status (snd (bumpAnnotationUnstructured env u key val w)) = Status w"
  by (simp add: bumpAnnotationUnstructured_def)

lemma waitRollout_Status [simp]: "Status (snd (waitRollout env kind ns nm w)) = Status w"
  by (simp add: waitRollout_def tick_def)

lemma runProxyCheckIfEnabled_Status [simp]:
  "Status (snd (runProxyCheckIfEnabled env spec ns nm w)) = Status w"
  by (simp add: runProxyCheckIfEnabled_def tick_def)

lemma waitSameNameReady_Status [simp]:
  "Status (snd (waitSameNameReady ns nm evs w)) = Status w"
  by (induction ns nm evs w rule: waitSameNameReady.induct)
     (simp_all add: Let_def split: ApiResult.splits)

lemma deletePodAndWaitSameNameReady_Status [simp]:
  "Status (snd (deletePodAndWaitSameNameReady env p timeout w)) = Status w"
  by (simp add: deletePodAndWaitSameNameReady_def apiWrite_def tick_def split: ApiResult.splits)

lemma deletePods_Status [simp]:
  "Status (snd (deletePods env sts timeout ps w)) = Status w"
proof (induction ps arbitrary: w)
  case Nil
  show ?case by simp
next
  case (Cons p ps)
  have "Status (snd (deletePodAndWaitSameNameReady env p timeout w)) = Status w"
    by simp
  then show ?case
    using Cons.IH
    by (cases "deletePodAndWaitSameNameReady env p timeout w")
       (auto split: option.splits error.splits)
qed

lemma restartStatefulSetByDelete_Status [simp]:
  "Status (snd (restartStatefulSetByDelete env sts timeout w)) = Status w"
  by (simp add: restartStatefulSetByDelete_def tick_def split: sum.splits ApiResult.splits)

lemma wrap64_succ_neq: "wrap64 (x + 1) \<noteq> x"
proof
  assume a: "wrap64 (x + 1) = x"
  define y where "y = x + 2 ^ 63"
  have m: "(y + 1) mod 2 ^ 64 = y"
    using a by (simp add: wrap64_def y_def algebra_simps)
  have "0 \<le> (y + 1) mod 2 ^ 64" and "(y + 1) mod 2 ^ 64 < 2 ^ 64"
    by simp_all
  then have r: "0 \<le> y" "y < 2 ^ 64"
    using m by simp_all
  show False
  proof (cases "y + 1 < 2 ^ 64")
    case True
    then have "(y + 1) mod 2 ^ 64 = y + 1"
      using r by simp
    with m show False by simp
  next
    case False
    then have "y + 1 = 2 ^ 64" using r by simp
    then have "(y + 1) mod 2 ^ 64 = 0" by simp
    with m have "y = 0" by simp
    with \<open>y + 1 = 2 ^ 64\<close> show False by simp
  qed
qed

lemma wrap64_in_range: "isInt64 x \<Longrightarrow> wrap64 x = x"
  by (simp add: wrap64_def isInt64_def)

lemma SetRetry_exact:
  "SetRetry env ref cnt e w =
     (let k = (if 0 < cnt \<and> e \<noteq> [] then 1 else 0);
          new = (Status w)\<lparr>Retries := Some \<lparr>Count = cnt, LastError = e, LastFailed = ref,
            LastErrorTime = Some (if 0 < cnt \<and> e \<noteq> [] then timeNow env (calls w) else 0)\<rparr>\<rparr>
      in if new\<lparr>LastUpdated := LastUpdated (Status w)\<rparr> = Status w
         then (None, w\<lparr>calls := calls w + k\<rparr>)
         else (map_option Error (statusPatchErr env (calls w + k + 1)),
               w\<lparr>Status := new\<lparr>LastUpdated := Some (timeNow env (calls w + k))\<rparr>,
                 calls := calls w + k + 2,
                 trace := trace w @
                   [StatusPatch (new\<lparr>LastUpdated := Some (timeNow env (calls w + k))\<rparr>)]\<rparr>))"
proof (cases "0 < cnt \<and> e \<noteq> []")
  case True
  have "mutatorContract env (\<lambda>st. st\<lparr>Retries := Some \<lparr>Count = cnt, LastError = e,
          LastFailed = ref, LastErrorTime = Some (timeNow env (calls w))\<rparr>\<rparr>)
        (Suc 0) w (SetRetry env ref cnt e w)"
    using True by (simp add: SetRetry_def readClock_def Patch_contract_after_read)
  then show ?thesis
    using True by (simp add: mutatorContract_def Let_def)
next
  case False
  then have c: "(0 < cnt \<and> e \<noteq> []) = False" by simp
  from False have "cnt \<le> 0 \<or> e = []" by auto
  then have eq: "SetRetry env ref cnt e = Patch env (\<lambda>st. st\<lparr>Retries :=
        Some \<lparr>Count = cnt, LastError = e, LastFailed = ref, LastErrorTime = Some 0\<rparr>\<rparr>)"
    by (rule SetRetry_no_clock)
  have "mutatorContract env (\<lambda>st. st\<lparr>Retries :=
        Some \<lparr>Count = cnt, LastError = e, LastFailed = ref, LastErrorTime = Some 0\<rparr>\<rparr>)
        0 w (SetRetry env ref cnt e w)"
    unfolding eq by (rule Patch_contract)
  then show ?thesis
    unfolding c if_False by (simp add: mutatorContract_def Let_def)
qed

text \<open>What \<open>recordFailure\<close> does, in full.\<close>

lemma recordFailure_exact:
  "recordFailure env ref cause w =
     (let cnt = wrap64 (retryCount (Status w) + 1);
          k = (if 0 < cnt \<and> cause \<noteq> [] then 1 else 0);
          st = (Status w)\<lparr>Retries := Some \<lparr>Count = cnt, LastError = cause,
                   LastFailed = Some ref,
                   LastErrorTime = Some (if 0 < cnt \<and> cause \<noteq> [] then timeNow env (calls w) else 0)\<rparr>,
                 LastUpdated := Some (timeNow env (calls w + k))\<rparr>
      in (Some (Error (case statusPatchErr env (calls w + k + 1) of
                         None \<Rightarrow> cause | Some m \<Rightarrow> m)),
          w\<lparr>Status := st, calls := calls w + k + 2, trace := trace w @ [StatusPatch st]\<rparr>))"
proof -
  define cnt where "cnt = wrap64 (retryCount (Status w) + 1)"
  define new where "new = (Status w)\<lparr>Retries := Some \<lparr>Count = cnt, LastError = cause,
        LastFailed = Some ref,
        LastErrorTime = Some (if 0 < cnt \<and> cause \<noteq> [] then timeNow env (calls w) else 0)\<rparr>\<rparr>"
  have ne: "new\<lparr>LastUpdated := LastUpdated (Status w)\<rparr> \<noteq> Status w"
  proof
    assume "new\<lparr>LastUpdated := LastUpdated (Status w)\<rparr> = Status w"
    then have "Retries (new\<lparr>LastUpdated := LastUpdated (Status w)\<rparr>) = Retries (Status w)"
      by simp
    then have "Retries (Status w) = Some \<lparr>Count = cnt, LastError = cause,
        LastFailed = Some ref,
        LastErrorTime = Some (if 0 < cnt \<and> cause \<noteq> [] then timeNow env (calls w) else 0)\<rparr>"
      by (simp add: new_def)
    then have "retryCount (Status w) = cnt"
      by (simp add: retryCount_def)
    then show False
      using wrap64_succ_neq [of "retryCount (Status w)"] by (simp add: cnt_def)
  qed
  have r: "(case Retries (Status w) of None \<Rightarrow> 0 | Some r \<Rightarrow> Count r) = retryCount (Status w)"
    by (simp add: retryCount_def)
  have s: "SetRetry env (Some ref) cnt cause w =
      (map_option Error (statusPatchErr env (calls w + (if 0 < cnt \<and> cause \<noteq> [] then 1 else 0) + 1)),
       w\<lparr>Status := new\<lparr>LastUpdated :=
                Some (timeNow env (calls w + (if 0 < cnt \<and> cause \<noteq> [] then 1 else 0)))\<rparr>,
         calls := calls w + (if 0 < cnt \<and> cause \<noteq> [] then 1 else 0) + 2,
         trace := trace w @ [StatusPatch (new\<lparr>LastUpdated :=
                Some (timeNow env (calls w + (if 0 < cnt \<and> cause \<noteq> [] then 1 else 0)))\<rparr>)]\<rparr>)"
    using ne unfolding SetRetry_exact Let_def new_def by simp
  show ?thesis
  proof (cases "0 < cnt \<and> cause \<noteq> []")
    case True
    then have c: "(0 < cnt \<and> cause \<noteq> []) = True" by simp
    show ?thesis
      unfolding recordFailure_def Let_def r cnt_def [symmetric] s new_def c if_True
      by (cases "statusPatchErr env (calls w + 1 + 1)") simp_all
  next
    case False
    then have c: "(0 < cnt \<and> cause \<noteq> []) = False" by simp
    show ?thesis
      unfolding recordFailure_def Let_def r cnt_def [symmetric] s new_def c if_False
      by (cases "statusPatchErr env (calls w + 0 + 1)") simp_all
  qed
qed

lemma orRecord_steps:
  "foldr (orRecord env ref) steps rest w =
     (case runSteps steps w of
        (None, v) \<Rightarrow> rest v
      | (Some (Error c), v) \<Rightarrow> recordFailure env ref c v
      | (Some Panic, v) \<Rightarrow> (Some Panic, v))"
  by (induction steps arbitrary: w)
     (simp_all add: orRecord_def split: prod.splits option.splits error.splits)

lemma orRecord_requireBump:
  "orRecord env ref (requireBump item cr) rest w =
     (if length (BumpAnnotationKey item) = 0 \<or> length (BumpAnnotationValue item) = 0
      then recordFailure env ref
             (''BumpAnnotationKey, BumpAnnotationValue is required for custom resources ''
                @ GetKind cr) w
      else rest w)"
  by (simp add: orRecord_def requireBump_def)

lemma processItem_steps:
  assumes "itemSteps env spec item = Some (ref, steps)"
  shows "processItem env spec hash tot processed item w =
     foldr (orRecord env ref) steps
       (orRecord env ref (bumpProgress env ref processed tot hash) (\<lambda>w'. (None, w'))) w"
  using assms
  unfolding itemSteps_def processItem_def Let_def
  by (auto simp add: orRecord_requireBump split: option.splits if_splits)

lemma requireBump_Status [simp]: "Status (snd (requireBump item cr w)) = Status w"
  by (simp add: requireBump_def)

lemma runSteps_Status:
  assumes "\<And>step u. step \<in> set steps \<Longrightarrow> Status (snd (step u)) = Status u"
  shows "Status (snd (runSteps steps w)) = Status w"
  using assms
proof (induction steps arbitrary: w)
  case Nil
  show ?case by simp
next
  case (Cons step steps)
  have s: "Status (snd (step w)) = Status w"
    using Cons.prems by simp
  have "Status (snd (runSteps steps v)) = Status v" for v
    using Cons.IH Cons.prems by simp
  then show ?case
    using s by (cases "step w") (auto split: option.splits)
qed

lemma itemSteps_Status:
  assumes "itemSteps env spec item = Some (ref, steps)"
  shows "Status (snd (runSteps steps w)) = Status w"
proof (rule runSteps_Status)
  fix step u
  assume "step \<in> set steps"
  then show "Status (snd (step u)) = Status u"
    using assms
    unfolding itemSteps_def
    by (auto split: option.splits if_splits)
qed

subsection \<open>Claim C3\<close>

text \<open>
  C3 (as amended). When a step of an item of the data-plane rollout (its restart, its
  wait or its verification; for a custom resource also the check for the bump
  annotation) returns an error, after the steps before it succeeded, the engine records
  the failure with one status patch, issued right after what the steps did: in the
  patched status the retry count is the former count plus one in Go's 64-bit
  arithmetic, so exactly one higher unless the former count is the largest integer;
  \<open>lastError\<close> is the error of the step and \<open>lastFailed\<close> the item's kind,
  namespace and name; nothing but the retry record and \<open>lastUpdated\<close> differs from
  the status before the item, so the cursor and \<open>cursor.next\<close> are as they were. The
  engine returns the error of the step when the API accepts that patch and the error of
  the API otherwise, and the loop over the plan ends with that result: no later item is
  touched.
\<close>

theorem failed_item_recorded:
  assumes "itemSteps env spec item = Some (ref, steps)"
      and "runSteps steps w = (Some (Error cause), v)"
  shows "(let res = processItem env spec hash tot processed item w; st = Status (snd res) in
          trace (snd res) = trace v @ [StatusPatch st]
          \<and> (case Retries st of
                None \<Rightarrow> False
              | Some r \<Rightarrow> Count r = wrap64 (retryCount (Status w) + 1) \<and> LastError r = cause
                          \<and> LastFailed r = Some ref)
          \<and> (isInt64 (retryCount (Status w) + 1) \<longrightarrow> retryCount st = retryCount (Status w) + 1)
          \<and> st\<lparr>Retries := Retries (Status w), LastUpdated := LastUpdated (Status w)\<rparr> = Status w
          \<and> Cursor st = Cursor (Status w)
          \<and> fst res = Some (Error (case statusPatchErr env (calls (snd res) - 1) of
                                     None \<Rightarrow> cause | Some m \<Rightarrow> m))
          \<and> runQueue env spec hash tot processed (item # items) w = res)"
proof -
  have sv: "Status v = Status w"
    using itemSteps_Status [OF assms(1), of w] assms(2) by simp
  have p: "processItem env spec hash tot processed item w = recordFailure env ref cause v"
    by (simp add: processItem_steps [OF assms(1)] orRecord_steps assms(2))
  define cnt where "cnt = wrap64 (retryCount (Status w) + 1)"
  define k :: nat where "k = (if 0 < cnt \<and> cause \<noteq> [] then 1 else 0)"
  define st where "st = (Status w)\<lparr>Retries := Some \<lparr>Count = cnt, LastError = cause,
        LastFailed = Some ref,
        LastErrorTime = Some (if 0 < cnt \<and> cause \<noteq> [] then timeNow env (calls v) else 0)\<rparr>,
      LastUpdated := Some (timeNow env (calls v + k))\<rparr>"
  have r: "recordFailure env ref cause v =
      (Some (Error (case statusPatchErr env (calls v + k + 1) of None \<Rightarrow> cause | Some m \<Rightarrow> m)),
       v\<lparr>Status := st, calls := calls v + k + 2, trace := trace v @ [StatusPatch st]\<rparr>)"
    unfolding recordFailure_exact Let_def sv cnt_def [symmetric] k_def [symmetric] st_def [symmetric]
    by simp
  have c: "retryCount st = cnt"
    by (simp add: st_def retryCount_def)
  have i: "retryCount st = retryCount (Status w) + 1" if "isInt64 (retryCount (Status w) + 1)"
    using wrap64_in_range [OF that] c by (simp add: cnt_def)
  have same: "st\<lparr>Retries := Retries (Status w), LastUpdated := LastUpdated (Status w)\<rparr> = Status w"
    by (simp add: st_def)
  have cur: "Cursor st = Cursor (Status w)"
    by (simp add: st_def)
  have ret: "Retries st = Some \<lparr>Count = cnt, LastError = cause, LastFailed = Some ref,
        LastErrorTime = Some (if 0 < cnt \<and> cause \<noteq> [] then timeNow env (calls v) else 0)\<rparr>"
    by (simp add: st_def)
  have q: "runQueue env spec hash tot processed (item # items) w
      = processItem env spec hash tot processed item w"
    by (simp add: p r)
  show ?thesis
    unfolding Let_def q
    using i same cur
    by (simp add: p r ret cnt_def)
qed

theorem failed_item_recorded_witness:
  "fst (processItem
          (calmEnv\<lparr>waitRolledOut := (\<lambda>n kind ns nm. Some ''timeout waiting for DaemonSet rollout'')\<rparr>)
          sampleSpec ''0a1b2c3d4e5f'' 3 1
          (typedItem KindDaemonSet Restart (sampleWorkload ''ns1'' ''d''))
          (world0\<lparr>Status := emptyStatus\<lparr>
             Retries := Some \<lparr>Count = 1, LastError = ''earlier'', LastFailed = None,
                              LastErrorTime = Some 900\<rparr>,
             Cursor := Some \<lparr>PlanHash = ''0a1b2c3d4e5f'', Next = 1, Total = 3,
                             LastDone = None\<rparr>\<rparr>\<rparr>))
     = Some (Error ''timeout waiting for DaemonSet rollout'')
   \<and> map (\<lambda>st. (map_option Count (Retries st), map_option LastError (Retries st),
                 map_option LastFailed (Retries st), map_option Next (Cursor st)))
       (statusPatches (trace (snd (processItem
          (calmEnv\<lparr>waitRolledOut := (\<lambda>n kind ns nm. Some ''timeout waiting for DaemonSet rollout'')\<rparr>)
          sampleSpec ''0a1b2c3d4e5f'' 3 1
          (typedItem KindDaemonSet Restart (sampleWorkload ''ns1'' ''d''))
          (world0\<lparr>Status := emptyStatus\<lparr>
             Retries := Some \<lparr>Count = 1, LastError = ''earlier'', LastFailed = None,
                              LastErrorTime = Some 900\<rparr>,
             Cursor := Some \<lparr>PlanHash = ''0a1b2c3d4e5f'', Next = 1, Total = 3,
                             LastDone = None\<rparr>\<rparr>\<rparr>)))))
     = [(Some 2, Some ''timeout waiting for DaemonSet rollout'',
         Some (Some \<lparr>refKind = KindDaemonSet, refNamespace = ''ns1'', refName = ''d''\<rparr>),
         Some 1)]"
proof -
  let ?env = "calmEnv\<lparr>waitRolledOut := (\<lambda>n kind ns nm. Some ''timeout waiting for DaemonSet rollout'')\<rparr>"
  let ?item = "typedItem KindDaemonSet Restart (sampleWorkload ''ns1'' ''d'')"
  let ?st = "emptyStatus\<lparr>
             Retries := Some \<lparr>Count = 1, LastError = ''earlier'', LastFailed = None,
                              LastErrorTime = Some 900\<rparr>,
             Cursor := Some \<lparr>PlanHash = ''0a1b2c3d4e5f'', Next = 1, Total = 3,
                             LastDone = None\<rparr>\<rparr>"
  let ?w = "world0\<lparr>Status := ?st\<rparr>"
  let ?ref = "\<lparr>refKind = KindDaemonSet, refNamespace = ''ns1'', refName = ''d''\<rparr>"
  let ?steps = "[bumpRestartAnnotation ?env KindDaemonSet (sampleWorkload ''ns1'' ''d''),
                 waitRollout ?env KindDaemonSet ''ns1'' ''d'',
                 runProxyCheckIfEnabled ?env sampleSpec ''ns1'' ''d'']"
  let ?v = "\<lparr>Status = ?st, calls = 3,
             trace = [PatchTemplateAnnotation KindDaemonSet ''ns1'' ''d'' restartedAtKey
                        ''2025-01-01T00:00:00Z'']\<rparr>"
  let ?res = "processItem ?env sampleSpec ''0a1b2c3d4e5f'' 3 1 ?item ?w"
  have steps: "itemSteps ?env sampleSpec ?item = Some (?ref, ?steps)"
    by (simp add: itemSteps_def getNamespace_def getName_def typedItem_def sampleWorkload_def)
  have fails: "runSteps ?steps ?w = (Some (Error ''timeout waiting for DaemonSet rollout''), ?v)"
    by (simp add: bumpRestartAnnotation_def bumpAnnotationGeneric_def patchObject_def
        apiWrite_def readClock_def waitRollout_def tick_def calmEnv_def world0_def
        sampleWorkload_def)
  note T = failed_item_recorded [OF steps fails, where hash = "''0a1b2c3d4e5f''" and tot = 3
      and processed = 1 and items = "[]", unfolded Let_def]
  have e: "fst ?res = Some (Error ''timeout waiting for DaemonSet rollout'')"
    using T [THEN conjunct2, THEN conjunct2, THEN conjunct2, THEN conjunct2, THEN conjunct2,
        THEN conjunct1]
    by (simp add: calmEnv_def)
  have t: "statusPatches (trace (snd ?res)) = [Status (snd ?res)]"
    using T [THEN conjunct1] by (simp add: statusPatches_append)
  have cnt: "wrap64 (retryCount (Status ?w) + 1) = 2"
    by (simp add: retryCount_def world0_def emptyStatus_def wrap64_def)
  have rt: "case Retries (Status (snd ?res)) of
              None \<Rightarrow> False
            | Some r \<Rightarrow> Count r = 2 \<and> LastError r = ''timeout waiting for DaemonSet rollout''
                        \<and> LastFailed r = Some ?ref"
    using T [THEN conjunct2, THEN conjunct1] unfolding cnt
    by (simp add: world0_def emptyStatus_def)
  have c: "Cursor (Status (snd ?res)) =
      Some \<lparr>PlanHash = ''0a1b2c3d4e5f'', Next = 1, Total = 3, LastDone = None\<rparr>"
    using T [THEN conjunct2, THEN conjunct2, THEN conjunct2, THEN conjunct2, THEN conjunct1]
    by (simp add: world0_def emptyStatus_def)
  show ?thesis
    using e rt c by (simp add: t split: option.splits)
qed

theorem rejected_status_write_masks_the_cause:
  "runSteps
     [bumpRestartAnnotation
        (calmEnv\<lparr>waitRolledOut := (\<lambda>n kind ns nm. Some ''timeout waiting for DaemonSet rollout''),
           statusPatchErr := (\<lambda>n. Some ''the object has been modified'')\<rparr>)
        KindDaemonSet (sampleWorkload ''ns1'' ''d''),
      waitRollout
        (calmEnv\<lparr>waitRolledOut := (\<lambda>n kind ns nm. Some ''timeout waiting for DaemonSet rollout''),
           statusPatchErr := (\<lambda>n. Some ''the object has been modified'')\<rparr>)
        KindDaemonSet ''ns1'' ''d'']
     world0
   = (Some (Error ''timeout waiting for DaemonSet rollout''),
      \<lparr>Status = emptyStatus, calls = 3,
       trace = [PatchTemplateAnnotation KindDaemonSet ''ns1'' ''d'' restartedAtKey
                  ''2025-01-01T00:00:00Z'']\<rparr>)
   \<and> fst (processItem
        (calmEnv\<lparr>waitRolledOut := (\<lambda>n kind ns nm. Some ''timeout waiting for DaemonSet rollout''),
           statusPatchErr := (\<lambda>n. Some ''the object has been modified'')\<rparr>)
        sampleSpec ''0a1b2c3d4e5f'' 3 1
        (typedItem KindDaemonSet Restart (sampleWorkload ''ns1'' ''d'')) world0)
     = Some (Error ''the object has been modified'')"
  by (simp add: processItem_def getNamespace_def getName_def typedItem_def sampleWorkload_def
      orRecord_def bumpRestartAnnotation_def bumpAnnotationGeneric_def patchObject_def
      apiWrite_def readClock_def waitRollout_def tick_def recordFailure_def SetRetry_def
      Patch_def statusEqual_def calmEnv_def world0_def emptyStatus_def wrap64_def Let_def)

subsection \<open>Plan hash: helper lemmas\<close>

lemma app_sep_eq:
  assumes "c \<notin> set a" "c \<notin> set a'"
  shows "(a @ c # b = a' @ c # b') = (a = a' \<and> b = b')"
proof
  assume e: "a @ c # b = a' @ c # b'"
  have "takeWhile (\<lambda>x. x \<noteq> c) (a @ c # b) = a" "takeWhile (\<lambda>x. x \<noteq> c) (a' @ c # b') = a'"
    using assms by (auto simp add: takeWhile_tail)
  with e have "a = a'" by simp
  with e show "a = a' \<and> b = b'" by simp
qed simp

lemma those_Some: "those (map Some ys) = Some ys"
  by (induction ys) simp_all

lemma sep_in: "a @ c # b = s \<Longrightarrow> c \<in> set s"
  by auto

lemma those_map_Some:
  "those (map f xs) = Some ys \<longleftrightarrow> map f xs = map Some ys"
proof (induction xs arbitrary: ys)
  case Nil
  show ?case by auto
next
  case (Cons x xs)
  show ?case
    by (cases ys) (auto simp add: Cons.IH split: option.splits)
qed

lemma concat_lines_inj:
  assumes "\<forall>b \<in> set bs. c \<notin> set b" "\<forall>b \<in> set bs'. c \<notin> set b"
      and "concat (map (\<lambda>b. b @ [c]) bs) = concat (map (\<lambda>b. b @ [c]) bs')"
  shows "bs = bs'"
  using assms
proof (induction bs arbitrary: bs')
  case Nil
  then show ?case by (cases bs') simp_all
next
  case (Cons b bs)
  show ?case
  proof (cases bs')
    case Nil
    with Cons.prems show ?thesis by simp
  next
    case (Cons b' bs'')
    with Cons.prems have "b @ c # concat (map (\<lambda>b. b @ [c]) bs)
        = b' @ c # concat (map (\<lambda>b. b @ [c]) bs'')"
      by simp
    moreover have "c \<notin> set b" "c \<notin> set b'"
      using Cons.prems Cons by simp_all
    ultimately have "b = b'" "concat (map (\<lambda>b. b @ [c]) bs) = concat (map (\<lambda>b. b @ [c]) bs'')"
      by (simp_all add: app_sep_eq)
    with Cons.IH [of bs''] Cons.prems Cons show ?thesis by simp
  qed
qed

lemma planItemText_shape:
  assumes "separatorFree w"
  shows "\<exists>body. planItemText w = Some (body @ [CHR 0x0A]) \<and> CHR 0x0A \<notin> set body"
  using assms
  unfolding separatorFree_def lacks_def planItemText_def getNamespace_def getName_def
  by (auto split: if_splits option.splits)

lemma planItemText_kind:
  assumes "separatorFree w"
  shows "\<exists>rest. planItemText w = Some (Kind w @ CHR ''|'' # rest)"
  using assms
  unfolding separatorFree_def planItemText_def getNamespace_def getName_def
  by (auto split: if_splits option.splits)

lemma planItemText_inj:
  assumes "separatorFree w" "separatorFree w'" "planItemText w = planItemText w'"
  shows "hashedKey w = hashedKey w'"
proof -
  obtain rest where r: "planItemText w = Some (Kind w @ CHR ''|'' # rest)"
    using planItemText_kind [OF assms(1)] by blast
  obtain rest' where r': "planItemText w' = Some (Kind w' @ CHR ''|'' # rest')"
    using planItemText_kind [OF assms(2)] by blast
  have "CHR ''|'' \<notin> set (Kind w)" "CHR ''|'' \<notin> set (Kind w')"
    using assms by (simp_all add: separatorFree_def lacks_def)
  then have k: "Kind w = Kind w'"
    using r r' assms(3) by (simp add: app_sep_eq)
  show ?thesis
    using assms k
    unfolding separatorFree_def lacks_def planItemText_def getNamespace_def getName_def
      hashedKey_def knownKind_def
    by (auto split: if_splits option.splits simp add: app_sep_eq dest: sep_in sep_in [OF sym])
qed


lemma planText_lines:
  assumes "list_all separatorFree q"
  shows "planText q =
    Some (concat (map (\<lambda>b. b @ [CHR 0x0A]) (map (\<lambda>w. butlast (the (planItemText w))) q)))"
proof -
  have h: "map planItemText q = map Some (map (\<lambda>w. butlast (the (planItemText w)) @ [CHR 0x0A]) q)"
    using assms planItemText_shape by (induction q) fastforce+
  show ?thesis
    unfolding planText_def h those_Some by (simp add: comp_def)
qed

lemma planText_inj:
  assumes "list_all separatorFree q" "list_all separatorFree q'" "planText q = planText q'"
  shows "map hashedKey q = map hashedKey q'"
proof -
  let ?f = "\<lambda>w. butlast (the (planItemText w))"
  have nl: "\<forall>b \<in> set (map ?f q). CHR 0x0A \<notin> set b" "\<forall>b \<in> set (map ?f q'). CHR 0x0A \<notin> set b"
    using assms(1,2) planItemText_shape by (fastforce simp add: list_all_iff)+
  have "concat (map (\<lambda>b. b @ [CHR 0x0A]) (map ?f q)) = concat (map (\<lambda>b. b @ [CHR 0x0A]) (map ?f q'))"
    using assms by (simp add: planText_lines)
  from concat_lines_inj [OF nl this] have e: "map ?f q = map ?f q'" .
  then have len: "length q = length q'"
    using map_eq_imp_length_eq by blast
  show ?thesis
  proof (rule nth_equalityI)
    show "length (map hashedKey q) = length (map hashedKey q')" using len by simp
  next
    fix i assume "i < length (map hashedKey q)"
    then have i: "i < length q" "i < length q'" using len by simp_all
    then have wf: "separatorFree (q ! i)" "separatorFree (q' ! i)"
      using assms(1,2) by (simp_all add: list_all_length)
    have "?f (q ! i) = ?f (q' ! i)"
      using e i by (metis nth_map)
    moreover obtain b b' where "planItemText (q ! i) = Some (b @ [CHR 0x0A])"
        "planItemText (q' ! i) = Some (b' @ [CHR 0x0A])"
      using planItemText_shape wf by blast
    ultimately have "planItemText (q ! i) = planItemText (q' ! i)" by simp
    from planItemText_inj [OF wf this] show "map hashedKey q ! i = map hashedKey q' ! i"
      using i by simp
  qed
qed

lemma planItemText_alt:
  "planItemText w =
     (case (getNamespace w, getName w) of
        (Some ns, Some nm) \<Rightarrow>
          Some (Kind w @ ''|'' @
            (if Kind w = KindDeployment \<or> Kind w = KindDaemonSet then ns @ ''/'' @ nm
             else if Kind w = KindStatefulSet then ns @ ''/'' @ nm @ ''|'' @ Strategy w
             else if Kind w = KindCR then
               ns @ ''/'' @ nm @ ''|'' @ Strategy w @
                 (if BumpAnnotationKey w \<noteq> []
                  then ''|'' @ BumpAnnotationKey w @ ''='' @ BumpAnnotationValue w else [])
             else []) @ [CHR 0x0A])
      | _ \<Rightarrow> None)"
  by (auto simp add: planItemText_def getNamespace_def getName_def split: option.splits)

lemma planItemText_stable:
  assumes "stableKey w = stableKey w'"
  shows "planItemText w = planItemText w'"
proof -
  from assms have e: "Kind w = Kind w'" "getNamespace w = getNamespace w'"
      "getName w = getName w'" "Strategy w = Strategy w'"
      "BumpAnnotationKey w = BumpAnnotationKey w'" "BumpAnnotationValue w = BumpAnnotationValue w'"
    by (simp_all add: stableKey_def)
  show ?thesis
    by (simp only: planItemText_alt e)
qed

lemma planHash_stable:
  assumes "map stableKey q = map stableKey q'"
  shows "planHash q = planHash q'"
proof -
  have "map planItemText q = map planItemText q'"
    using assms
  proof (induction q arbitrary: q')
    case Nil
    then show ?case by simp
  next
    case (Cons w q)
    then obtain w' q'' where q': "q' = w' # q''" and k: "stableKey w = stableKey w'"
        and r: "map stableKey q = map stableKey q''"
      by (cases q') auto
    from planItemText_stable [OF k] Cons.IH [OF r] show ?case
      by (simp add: q')
  qed
  then show ?thesis by (simp add: planHash_def planText_def)
qed

subsection \<open>Claim C1\<close>

text \<open>
  C1 (as amended). The plan hash is the first 12 hex characters of the SHA-1 digest of
  the concatenated item lines. The line of a custom resource, and of a StatefulSet
  (which carries no bump key), is the specification's
  \<open>kind|namespace/name|strategy(|bumpKey=bumpValue)?\<close> with a newline; the line of a
  Deployment or DaemonSet is \<open>kind|namespace/name\<close> with a newline, without the
  strategy. The hash is the same for two plans that agree, item by item, on kind,
  namespace, name, strategy, bump key and bump value, whatever else the snapshots hold.
  For plans whose fields are free of the separators, the digested text differs as soon
  as the two plans differ, at some position, in what the code hashes of an item: kind,
  namespace, name, the strategy of a StatefulSet or custom resource, the bump pair of a
  custom resource with a bump key. That covers every such alteration and every
  reordering that moves an item onto a different one.
\<close>

theorem plan_hash_identity:
  "planHash q = map_option (\<lambda>t. take 12 (hexEncodeToString (sha1Sum t)))
                  (map_option concat (those (map planItemText q)))
   \<and> ((Kind w = KindCR \<or> Kind w = KindStatefulSet \<and> BumpAnnotationKey w = [])
        \<and> getNamespace w = Some ns \<and> getName w = Some nm
      \<longrightarrow> planItemText w = Some (specItemText w ns nm))
   \<and> ((Kind w = KindDeployment \<or> Kind w = KindDaemonSet)
        \<and> getNamespace w = Some ns \<and> getName w = Some nm
      \<longrightarrow> planItemText w = Some (Kind w @ ''|'' @ ns @ ''/'' @ nm @ [CHR 0x0A]))
   \<and> (map stableKey q = map stableKey q' \<longrightarrow> planHash q = planHash q')
   \<and> (list_all separatorFree q \<and> list_all separatorFree q'
        \<and> map hashedKey q \<noteq> map hashedKey q'
      \<longrightarrow> planText q \<noteq> planText q')"
proof (intro conjI)
  show "planHash q = map_option (\<lambda>t. take 12 (hexEncodeToString (sha1Sum t)))
                  (map_option concat (those (map planItemText q)))"
    by (simp add: planHash_def planText_def)
next
  show "(Kind w = KindCR \<or> Kind w = KindStatefulSet \<and> BumpAnnotationKey w = [])
        \<and> getNamespace w = Some ns \<and> getName w = Some nm
      \<longrightarrow> planItemText w = Some (specItemText w ns nm)"
    by (auto simp add: planItemText_alt specItemText_def)
next
  show "(Kind w = KindDeployment \<or> Kind w = KindDaemonSet)
        \<and> getNamespace w = Some ns \<and> getName w = Some nm
      \<longrightarrow> planItemText w = Some (Kind w @ ''|'' @ ns @ ''/'' @ nm @ [CHR 0x0A])"
    by (auto simp add: planItemText_alt)
next
  show "map stableKey q = map stableKey q' \<longrightarrow> planHash q = planHash q'"
    using planHash_stable by blast
next
  show "list_all separatorFree q \<and> list_all separatorFree q'
        \<and> map hashedKey q \<noteq> map hashedKey q'
      \<longrightarrow> planText q \<noteq> planText q'"
    using planText_inj by blast
qed

theorem plan_hash_identity_witness:
  "planItemText (typedItem KindStatefulSet Delete (sampleWorkload ''ns1'' ''s1''))
     = Some ''StatefulSet|ns1/s1|rolloutDelete\<newline>''
   \<and> planItemText (typedItem KindDeployment Restart (sampleWorkload ''ns1'' ''d1''))
     = Some ''Deployment|ns1/d1\<newline>''
   \<and> planHash [typedItem KindStatefulSet Delete (sampleWorkload ''ns1'' ''s1'')]
     = planHash [typedItem KindStatefulSet Delete
                   ((sampleWorkload ''ns1'' ''s1'')\<lparr>ResourceVersion := ''2'', TemplateAnnotations := None\<rparr>)]
   \<and> planText [typedItem KindStatefulSet Delete (sampleWorkload ''ns1'' ''s1'')]
     \<noteq> planText [typedItem KindStatefulSet Restart (sampleWorkload ''ns1'' ''s1'')]"
  using plan_hash_identity [where w = "typedItem KindStatefulSet Delete (sampleWorkload ''ns1'' ''s1'')"
        and ns = "''ns1''" and nm = "''s1''"
        and q = "[typedItem KindStatefulSet Delete (sampleWorkload ''ns1'' ''s1'')]"
        and q' = "[typedItem KindStatefulSet Delete
                   ((sampleWorkload ''ns1'' ''s1'')\<lparr>ResourceVersion := ''2'', TemplateAnnotations := None\<rparr>)]",
        THEN conjunct2]
    plan_hash_identity [where w = "typedItem KindDeployment Restart (sampleWorkload ''ns1'' ''d1'')"
        and ns = "''ns1''" and nm = "''d1''"
        and q = "[typedItem KindStatefulSet Delete (sampleWorkload ''ns1'' ''s1'')]"
        and q' = "[typedItem KindStatefulSet Restart (sampleWorkload ''ns1'' ''s1'')]",
        THEN conjunct2]
  by (simp add: stableKey_def hashedKey_def separatorFree_def lacks_def getNamespace_def
      getName_def typedItem_def sampleWorkload_def specItemText_def knownKind_def)

theorem deployment_strategy_not_hashed:
  "Strategy (typedItem KindDeployment Restart (sampleWorkload ''ns1'' ''d1''))
     \<noteq> Strategy (typedItem KindDeployment Delete (sampleWorkload ''ns1'' ''d1''))
   \<and> planHash [typedItem KindDeployment Restart (sampleWorkload ''ns1'' ''d1'')]
     = planHash [typedItem KindDeployment Delete (sampleWorkload ''ns1'' ''d1'')]"
  by (simp add: planHash_def planText_def planItemText_def typedItem_def)


subsection \<open>Plan builder: helper lemmas\<close>













subsection \<open>Claim C2\<close>



subsection \<open>Orchestrator: helper lemmas\<close>

lemma clusterWrites_append:
  "clusterWrites (xs @ ys) = clusterWrites xs @ clusterWrites ys"
  by (induction xs rule: clusterWrites.induct) simp_all

lemma events_append: "events (xs @ ys) = events xs @ events ys"
  by (induction xs rule: events.induct) simp_all

lemma Patch_trace:
  "clusterWrites (trace (snd (Patch env mutate w))) = clusterWrites (trace w)"
  "events (trace (snd (Patch env mutate w))) = events (trace w)"
  "calls w \<le> calls (snd (Patch env mutate w))"
  "calls (snd (Patch env mutate w)) \<le> calls w + 2"
  by (cases "statusEqual (Status w) (mutate (Status w))";
      simp add: Patch_equal Patch_changed clusterWrites_append events_append)+

subsection \<open>Bundle inspector: helper lemmas\<close>

lemma pemBlocks_Nil [simp]: "pemBlocks env [] = []"
  by (simp add: pemBlocks.simps)

lemma parsePEMCertsFrom_Nil [simp]: "parsePEMCertsFrom env [] out = Inr out"
  by (simp add: parsePEMCertsFrom.simps)

lemma parsePEMCertsFrom_ok:
  "list_all (parses env) (certificateBlocks env rest) \<Longrightarrow>
   parsePEMCertsFrom env rest out = Inr (out @ parsedCerts env (certificateBlocks env rest))"
proof (induction env rest out rule: parsePEMCertsFrom.induct)
  case (1 env rest out)
  show ?case
  proof (cases "rest = []")
    case True
    then show ?thesis
      by (simp add: certificateBlocks_def parsedCerts_def)
  next
    case False
    show ?thesis
    proof (cases "pemDecode env rest")
      case None
      with False show ?thesis
        by (simp add: parsePEMCertsFrom.simps [of env rest] pemBlocks.simps [of env rest]
            certificateBlocks_def parsedCerts_def)
    next
      case (Some a)
      obtain blk n where a: "a = (blk, n)" by (cases a)
      have cb: "certificateBlocks env rest =
          (if BlockType blk = ''CERTIFICATE'' then [blk] else [])
            @ certificateBlocks env (drop (Suc n) rest)"
        using False Some a by (simp add: pemBlocks.simps [of env rest] certificateBlocks_def)
      show ?thesis
      proof (cases "BlockType blk = ''CERTIFICATE''")
        case other: False
        with "1.prems" cb have "list_all (parses env) (certificateBlocks env (drop (Suc n) rest))"
          by simp
        from "1.IH"(1) [OF False Some a [symmetric] _ this] other
        show ?thesis
          using False Some a cb by (simp add: parsePEMCertsFrom.simps [of env rest])
      next
        case cert: True
        with "1.prems" cb have p: "parses env blk"
          and r: "list_all (parses env) (certificateBlocks env (drop (Suc n) rest))"
          by simp_all
        from p obtain c where c: "x509ParseCertificate env (BlockBytes blk) = Inr c"
          by (auto simp add: parses_def split: sum.splits)
        from "1.IH"(2) [OF False Some a [symmetric] _ c r] cert
        show ?thesis
          using False Some a cb c
          by (simp add: parsePEMCertsFrom.simps [of env rest] parsedCerts_def)
      qed
    qed
  qed
qed

lemma parsePEMCertsFrom_fails:
  "\<not> list_all (parses env) (certificateBlocks env rest) \<Longrightarrow>
   \<exists>m. parsePEMCertsFrom env rest out = Inl (Error (''parse x509 cert: '' @ m))"
proof (induction env rest out rule: parsePEMCertsFrom.induct)
  case (1 env rest out)
  show ?case
  proof (cases "rest = []")
    case True
    with "1.prems" show ?thesis
      by (simp add: certificateBlocks_def)
  next
    case False
    show ?thesis
    proof (cases "pemDecode env rest")
      case None
      with False "1.prems" show ?thesis
        by (simp add: pemBlocks.simps [of env rest] certificateBlocks_def)
    next
      case (Some a)
      obtain blk n where a: "a = (blk, n)" by (cases a)
      have cb: "certificateBlocks env rest =
          (if BlockType blk = ''CERTIFICATE'' then [blk] else [])
            @ certificateBlocks env (drop (Suc n) rest)"
        using False Some a by (simp add: pemBlocks.simps [of env rest] certificateBlocks_def)
      show ?thesis
      proof (cases "BlockType blk = ''CERTIFICATE''")
        case other: False
        with "1.prems" cb have "\<not> list_all (parses env) (certificateBlocks env (drop (Suc n) rest))"
          by simp
        from "1.IH"(1) [OF False Some a [symmetric] _ this] other
        show ?thesis
          using False Some a by (simp add: parsePEMCertsFrom.simps [of env rest])
      next
        case cert: True
        show ?thesis
        proof (cases "x509ParseCertificate env (BlockBytes blk)")
          case (Inl m)
          then show ?thesis
            using False Some a cert by (simp add: parsePEMCertsFrom.simps [of env rest])
        next
          case (Inr c)
          then have "parses env blk" by (simp add: parses_def)
          with "1.prems" cb cert
          have "\<not> list_all (parses env) (certificateBlocks env (drop (Suc n) rest))"
            by simp
          from "1.IH"(2) [OF False Some a [symmetric] _ Inr this] cert
          show ?thesis
            using False Some a Inr by (simp add: parsePEMCertsFrom.simps [of env rest])
        qed
      qed
    qed
  qed
qed

lemma parsedCerts_length:
  "list_all (parses env) bs \<Longrightarrow> length (parsedCerts env bs) = length bs"
  by (induction bs) (auto simp add: parsedCerts_def parses_def split: sum.splits)

lemma spaceRunes_ascii:
  "\<forall>a \<in> set xs. a \<in> {9, 10, 11, 12, 13, 32} \<Longrightarrow> spaceRunes xs"
  by (induction xs rule: spaceRunes.induct) simp_all

lemma trimSpaceIsEmpty_blank:
  assumes "\<forall>c \<in> set raw. c \<in> set [CHR '' '', CHR 0x09, CHR 0x0A, CHR 0x0D]"
  shows "trimSpaceIsEmpty raw"
  unfolding trimSpaceIsEmpty_def
proof (rule spaceRunes_ascii, rule ballI)
  fix a :: nat
  assume "a \<in> set (map of_char raw)"
  then obtain c where c: "c \<in> set raw" and a: "a = of_char c"
    by auto
  from assms c have "c = CHR '' '' \<or> c = CHR 0x09 \<or> c = CHR 0x0A \<or> c = CHR 0x0D"
    by simp
  then show "a \<in> {9, 10, 11, 12, 13, 32}"
    unfolding a by (elim disjE) simp_all
qed

lemma fingerprint_fun:
  "fingerprint env = (\<lambda>c. toLower (hexEncodeToString (sha256Sum env (Raw c))))"
  by (rule ext) (simp add: fingerprint_def)

lemma LoadAndInspectCMBundle_ok:
  assumes "getConfigMap env (calls w) (LinkerdNamespace spec) (TrustRootsConfigMap spec) = ApiOK cmData"
      and "cmData configMapDataKey = Some raw"
      and "\<not> trimSpaceIsEmpty raw"
      and "list_all (parses env) (certificateBlocks env raw)"
      and "certificateBlocks env raw \<noteq> []"
  shows "LoadAndInspectCMBundle env spec w =
     (Inr \<lparr>Certs = parsedCerts env (certificateBlocks env raw),
           Fps = sort (map (fingerprint env) (parsedCerts env (certificateBlocks env raw))),
           State = (if length (certificateBlocks env raw) = 1 then BundleStateSingle
                    else BundleStateOverlap)\<rparr>, tick w)"
  using assms parsedCerts_length [OF assms(4)]
  by (simp add: LoadAndInspectCMBundle_def parsePEMCerts_def parsePEMCertsFrom_ok Let_def
      fingerprint_fun)

lemma LoadAndInspectCMBundle_result:
  assumes "LoadAndInspectCMBundle env spec w = (Inr res, w1)"
  shows "w1 = tick w" and "length (Fps res) = length (Certs res)" and "Certs res \<noteq> []"
    and "State res = (if length (Certs res) = 1 then BundleStateSingle else BundleStateOverlap)"
  using assms
  by (auto simp add: LoadAndInspectCMBundle_def Let_def
      split: ApiResult.splits option.splits if_splits sum.splits error.splits)


subsection \<open>Claim C6\<close>

text \<open>
  C6 (as amended). The inspector reads the bundle under \<open>ca-bundle.crt\<close>, decodes its
  PEM blocks one after the other, passes over the blocks that are not of type
  \<open>CERTIFICATE\<close> and parses the others as X.509. When all of the \<open>k \<ge> 1\<close>
  certificate blocks parse, it returns their certificates, the \<open>k\<close> fingerprints (the
  lower-cased hex SHA-256 of each certificate's DER, sorted) and the state \<open>single\<close>
  if \<open>k = 1\<close>, \<open>overlap\<close> otherwise. It fails when a certificate block does not
  parse, when there is no certificate block, when the text is blank, and when the key
  is missing.
\<close>

theorem bundle_inspection:
  assumes "getConfigMap env (calls w) (LinkerdNamespace spec) (TrustRootsConfigMap spec) = ApiOK cmData"
  shows "(cmData configMapDataKey = Some raw \<and> \<not> trimSpaceIsEmpty raw
            \<and> list_all (parses env) (certificateBlocks env raw)
            \<and> certificateBlocks env raw \<noteq> []
          \<longrightarrow> (case fst (LoadAndInspectCMBundle env spec w) of
                 Inl _ \<Rightarrow> False
               | Inr res \<Rightarrow>
                   Certs res = parsedCerts env (certificateBlocks env raw)
                   \<and> length (Certs res) = length (certificateBlocks env raw)
                   \<and> Fps res = sort (map (\<lambda>c. toLower (hexEncodeToString (sha256Sum env (Raw c))))
                                       (Certs res))
                   \<and> length (Fps res) = length (certificateBlocks env raw)
                   \<and> sorted (Fps res)
                   \<and> (State res = BundleStateSingle \<longleftrightarrow> length (certificateBlocks env raw) = 1)
                   \<and> (State res = BundleStateOverlap \<longleftrightarrow> 2 \<le> length (certificateBlocks env raw))))
         \<and> (cmData configMapDataKey = Some raw
            \<and> \<not> list_all (parses env) (certificateBlocks env raw)
          \<longrightarrow> failed (fst (LoadAndInspectCMBundle env spec w)))
         \<and> (cmData configMapDataKey = Some raw \<and> certificateBlocks env raw = []
          \<longrightarrow> failed (fst (LoadAndInspectCMBundle env spec w)))
         \<and> (cmData configMapDataKey = Some raw
            \<and> (\<forall>c \<in> set raw. c \<in> set [CHR '' '', CHR 0x09, CHR 0x0A, CHR 0x0D])
          \<longrightarrow> failed (fst (LoadAndInspectCMBundle env spec w)))
         \<and> (cmData configMapDataKey = None
          \<longrightarrow> failed (fst (LoadAndInspectCMBundle env spec w)))"
proof (intro conjI impI)
  assume a: "cmData configMapDataKey = Some raw \<and> \<not> trimSpaceIsEmpty raw
            \<and> list_all (parses env) (certificateBlocks env raw)
            \<and> certificateBlocks env raw \<noteq> []"
  then have "length (parsedCerts env (certificateBlocks env raw)) = length (certificateBlocks env raw)"
    by (simp add: parsedCerts_length)
  moreover have "length (certificateBlocks env raw) \<noteq> 1 \<Longrightarrow> 2 \<le> length (certificateBlocks env raw)"
    using a by (cases "certificateBlocks env raw") (auto simp add: Suc_le_eq)
  ultimately show "case fst (LoadAndInspectCMBundle env spec w) of
                 Inl _ \<Rightarrow> False
               | Inr res \<Rightarrow>
                   Certs res = parsedCerts env (certificateBlocks env raw)
                   \<and> length (Certs res) = length (certificateBlocks env raw)
                   \<and> Fps res = sort (map (\<lambda>c. toLower (hexEncodeToString (sha256Sum env (Raw c))))
                                       (Certs res))
                   \<and> length (Fps res) = length (certificateBlocks env raw)
                   \<and> sorted (Fps res)
                   \<and> (State res = BundleStateSingle \<longleftrightarrow> length (certificateBlocks env raw) = 1)
                   \<and> (State res = BundleStateOverlap \<longleftrightarrow> 2 \<le> length (certificateBlocks env raw))"
    using LoadAndInspectCMBundle_ok [OF assms, of raw] a
    by (cases "length (certificateBlocks env raw) = 1") (simp_all add: fingerprint_fun)
next
  assume "cmData configMapDataKey = Some raw
            \<and> \<not> list_all (parses env) (certificateBlocks env raw)"
  then show "failed (fst (LoadAndInspectCMBundle env spec w))"
    using assms parsePEMCertsFrom_fails [of env raw "[]"]
    by (auto simp add: LoadAndInspectCMBundle_def parsePEMCerts_def Let_def failed_def)
next
  assume "cmData configMapDataKey = Some raw \<and> certificateBlocks env raw = []"
  then show "failed (fst (LoadAndInspectCMBundle env spec w))"
    using assms parsePEMCertsFrom_ok [of env raw "[]"]
    by (auto simp add: LoadAndInspectCMBundle_def parsePEMCerts_def Let_def failed_def
        parsedCerts_def)
next
  assume "cmData configMapDataKey = Some raw
            \<and> (\<forall>c \<in> set raw. c \<in> set [CHR '' '', CHR 0x09, CHR 0x0A, CHR 0x0D])"
  then show "failed (fst (LoadAndInspectCMBundle env spec w))"
    using assms trimSpaceIsEmpty_blank [of raw]
    by (simp add: LoadAndInspectCMBundle_def Let_def failed_def)
next
  assume "cmData configMapDataKey = None"
  then show "failed (fst (LoadAndInspectCMBundle env spec w))"
    using assms by (simp add: LoadAndInspectCMBundle_def Let_def failed_def)
qed

lemma bundleEnv_blocks:
  "certificateBlocks (bundleEnv b) ''CKC'' =
     [\<lparr>BlockType = ''CERTIFICATE'', BlockBytes = ''C''\<rparr>,
      \<lparr>BlockType = ''CERTIFICATE'', BlockBytes = ''C''\<rparr>]"
  "certificateBlocks (bundleEnv b) ''CX'' =
     [\<lparr>BlockType = ''CERTIFICATE'', BlockBytes = ''C''\<rparr>,
      \<lparr>BlockType = ''CERTIFICATE'', BlockBytes = ''X''\<rparr>]"
  "certificateBlocks (bundleEnv b) ''CCC'' =
     [\<lparr>BlockType = ''CERTIFICATE'', BlockBytes = ''C''\<rparr>,
      \<lparr>BlockType = ''CERTIFICATE'', BlockBytes = ''C''\<rparr>,
      \<lparr>BlockType = ''CERTIFICATE'', BlockBytes = ''C''\<rparr>]"
  by (simp_all add: certificateBlocks_def pemBlocks.simps bundleEnv_def)

theorem bundle_inspection_witness:
  "(case fst (LoadAndInspectCMBundle (bundleEnv ''CKC'') sampleSpec world0) of
      Inl _ \<Rightarrow> False
    | Inr res \<Rightarrow> Certs res = [\<lparr>Raw = ''C''\<rparr>, \<lparr>Raw = ''C''\<rparr>] \<and> length (Fps res) = 2
        \<and> State res = BundleStateOverlap)
   \<and> failed (fst (LoadAndInspectCMBundle (bundleEnv ''CX'') sampleSpec world0))"
proof -
  have cm: "\<And>b. getConfigMap (bundleEnv b) (calls world0) (LinkerdNamespace sampleSpec)
      (TrustRootsConfigMap sampleSpec) = ApiOK [configMapDataKey \<mapsto> b]"
    by (simp add: bundleEnv_def)
  have sp: "\<not> trimSpaceIsEmpty ''CKC''"
    by (simp add: trimSpaceIsEmpty_def)
  have p: "list_all (parses (bundleEnv ''CKC'')) (certificateBlocks (bundleEnv ''CKC'') ''CKC'')"
    "\<not> list_all (parses (bundleEnv ''CX'')) (certificateBlocks (bundleEnv ''CX'') ''CX'')"
    by (simp_all add: bundleEnv_blocks) (simp_all add: parses_def bundleEnv_def)
  have c: "parsedCerts (bundleEnv ''CKC'') (certificateBlocks (bundleEnv ''CKC'') ''CKC'')
      = [\<lparr>Raw = ''C''\<rparr>, \<lparr>Raw = ''C''\<rparr>]"
    by (simp add: bundleEnv_blocks) (simp add: parsedCerts_def bundleEnv_def)
  have k: "[configMapDataKey \<mapsto> ''CKC''] configMapDataKey = Some ''CKC''"
    "[configMapDataKey \<mapsto> ''CX''] configMapDataKey = Some ''CX''"
    by simp_all
  have ne: "certificateBlocks (bundleEnv ''CKC'') ''CKC'' \<noteq> []"
    by (simp add: bundleEnv_blocks)
  have len: "length (certificateBlocks (bundleEnv ''CKC'') ''CKC'') = 2"
    by (simp add: bundleEnv_blocks)
  from bundle_inspection [OF cm [of "''CKC''"], of "''CKC''", THEN conjunct1, rule_format,
      OF conjI [OF k(1) conjI [OF sp conjI [OF p(1) ne]]]]
  have r1: "case fst (LoadAndInspectCMBundle (bundleEnv ''CKC'') sampleSpec world0) of
      Inl _ \<Rightarrow> False
    | Inr res \<Rightarrow> Certs res = [\<lparr>Raw = ''C''\<rparr>, \<lparr>Raw = ''C''\<rparr>] \<and> length (Fps res) = 2
        \<and> State res = BundleStateOverlap"
    by (simp add: c len split: sum.splits)
  from bundle_inspection [OF cm [of "''CX''"], of "''CX''", THEN conjunct2, THEN conjunct1,
      rule_format, OF conjI [OF k(2) p(2)]]
  have r2: "failed (fst (LoadAndInspectCMBundle (bundleEnv ''CX'') sampleSpec world0))" .
  from r1 r2 show ?thesis by simp
qed

theorem one_bad_block_fails_the_bundle:
  "parsedCerts (bundleEnv ''CX'') (certificateBlocks (bundleEnv ''CX'') ''CX'') = [\<lparr>Raw = ''C''\<rparr>]
   \<and> fst (LoadAndInspectCMBundle (bundleEnv ''CX'') sampleSpec world0)
     = Inl (Error ''parse bundle: parse x509 cert: malformed certificate'')"
proof -
  have a: "parsedCerts (bundleEnv ''CX'') (certificateBlocks (bundleEnv ''CX'') ''CX'') = [\<lparr>Raw = ''C''\<rparr>]"
    by (simp add: bundleEnv_blocks) (simp add: parsedCerts_def bundleEnv_def)
  have b: "parsePEMCerts (bundleEnv ''CX'') ''CX'' = Inl (Error ''parse x509 cert: malformed certificate'')"
    by (simp add: parsePEMCerts_def parsePEMCertsFrom.simps bundleEnv_def)
  have cm: "getConfigMap (bundleEnv ''CX'') (calls world0) (LinkerdNamespace sampleSpec)
      (TrustRootsConfigMap sampleSpec) = ApiOK [configMapDataKey \<mapsto> ''CX'']"
    by (simp add: bundleEnv_def)
  have sp: "\<not> trimSpaceIsEmpty ''CX''"
    by (simp add: trimSpaceIsEmpty_def)
  have "fst (LoadAndInspectCMBundle (bundleEnv ''CX'') sampleSpec world0)
     = Inl (Error ''parse bundle: parse x509 cert: malformed certificate'')"
    by (simp add: LoadAndInspectCMBundle_def cm b sp Let_def)
  with a show ?thesis by simp
qed


lemma andThen_ok: "fst (f w) = None \<Longrightarrow> andThen f g w = g (snd (f w))"
  by (cases "f w") (simp add: andThen_def)

lemma andThen_err: "fst (f w) = Some e \<Longrightarrow> andThen f g w = (Some e, snd (f w))"
  by (cases "f w") (simp add: andThen_def)

lemma reconcileStart_effect:
  "clusterWrites (trace (snd (reconcileStart env w))) = clusterWrites (trace w)"
  "events (trace (snd (reconcileStart env w))) = events (trace w)"
  "Trust (Status (snd (reconcileStart env w))) = Trust (Status w)"
  "Retries (Status (snd (reconcileStart env w))) = Retries (Status w)"
  "Cursor (Status (snd (reconcileStart env w))) = Cursor (Status w)"
  "Phase (Status (snd (reconcileStart env w))) = Some PhaseIdle"
proof -
  let ?p = "SetPhase env (Some PhaseIdle) (Some [])
        (Some ''Starting to watch for changes to the Linkerd trust anchor certificate'')"
  have p: "clusterWrites (trace (snd (?p w))) = clusterWrites (trace w)"
      "events (trace (snd (?p w))) = events (trace w)"
      "Trust (Status (snd (?p w))) = Trust (Status w)"
      "Retries (Status (snd (?p w))) = Retries (Status w)"
      "Cursor (Status (snd (?p w))) = Cursor (Status w)"
      "Phase (Status (snd (?p w))) = Some PhaseIdle"
    by (simp_all add: SetPhase_def Patch_trace Patch_fields)
  have q: "clusterWrites (trace (snd (SetProgress env True None None v))) = clusterWrites (trace v)"
      "events (trace (snd (SetProgress env True None None v))) = events (trace v)"
      "Trust (Status (snd (SetProgress env True None None v))) = Trust (Status v)"
      "Retries (Status (snd (SetProgress env True None None v))) = Retries (Status v)"
      "Cursor (Status (snd (SetProgress env True None None v))) = Cursor (Status v)"
      "Phase (Status (snd (SetProgress env True None None v))) = Phase (Status v)" for v
    by (simp_all add: SetProgress_def Patch_trace Patch_fields)
  have r: "snd (reconcileStart env w) = snd (SetProgress env True None None (snd (?p w)))
      \<or> snd (reconcileStart env w) = snd (?p w) \<and> fst (reconcileStart env w) \<noteq> None"
    by (cases "fst (?p w)") (simp_all add: reconcileStart_def andThen_ok andThen_err)
  show "clusterWrites (trace (snd (reconcileStart env w))) = clusterWrites (trace w)"
    using r p q by auto
  show "events (trace (snd (reconcileStart env w))) = events (trace w)"
    using r p q by auto
  show "Trust (Status (snd (reconcileStart env w))) = Trust (Status w)"
    using r p q by auto
  show "Retries (Status (snd (reconcileStart env w))) = Retries (Status w)"
    using r p q by auto
  show "Cursor (Status (snd (reconcileStart env w))) = Cursor (Status w)"
    using r p q by auto
  show "Phase (Status (snd (reconcileStart env w))) = Some PhaseIdle"
    using r p q by auto
qed

lemma reconcileStart_no_error:
  assumes "\<And>n. statusPatchErr env n = None"
  shows "fst (reconcileStart env w) = None"
proof -
  have a: "\<And>v p r m. fst (SetPhase env p r m v) = None"
    unfolding SetPhase_def by (rule Patch_no_error [OF assms])
  have b: "\<And>v c x y. fst (SetProgress env c x y v) = None"
    unfolding SetProgress_def Let_def by (rule Patch_no_error [OF assms])
  show ?thesis
    by (simp add: reconcileStart_def andThen_ok a b)
qed

subsection \<open>Claim C10\<close>

text \<open>
  C10. With only the ConfigMap trigger enabled, a bundle of three or more certificates,
  which the inspector classifies as overlap, makes the trigger switch return
  \<open>more than 2 or 0 fingerprints found in config map\<close>: the reconcile returns that
  error right after its two opening status writes, with the phase at \<open>Idle\<close>, the trust
  information unwritten, no event and no write to the cluster. A bundle of one or two
  certificates passes the switch with the inspector's state when the status write is
  accepted.
\<close>

theorem three_anchors_rejected:
  assumes "OnTrustRootsConfigMapChange spec" and "\<not> OnTrustAnchorSecretsDiff spec"
      and "LoadAndInspectCMBundle env spec w = (Inr res, w1)"
  shows "(3 \<le> length (Certs res) \<longrightarrow>
            State res = BundleStateOverlap
            \<and> detectBundleState env spec w =
                (Inl (Error ''more than 2 or 0 fingerprints found in config map''), w1)
            \<and> (reconcileStart env w0 = (None, w) \<longrightarrow>
                 Reconcile env spec w0 =
                   ((0, Some (Error ''more than 2 or 0 fingerprints found in config map'')), w1)
                 \<and> Phase (Status w1) = Some PhaseIdle
                 \<and> Trust (Status w1) = Trust (Status w0)
                 \<and> events (trace w1) = events (trace w0)
                 \<and> clusterWrites (trace w1) = clusterWrites (trace w0)))
         \<and> (length (Certs res) \<le> 2 \<and> (\<forall>n. statusPatchErr env n = None) \<longrightarrow>
            fst (detectBundleState env spec w) = Inr (State res))"
proof (rule conjI; rule impI)
  note r = LoadAndInspectCMBundle_result [OF assms(3)]
  assume three: "3 \<le> length (Certs res)"
  then obtain a b c ds where fps: "Fps res = a # b # c # ds"
    using r(2) by (cases "Fps res"; cases "tl (Fps res)"; cases "tl (tl (Fps res))") auto
  have st: "State res = BundleStateOverlap"
    using three r(4) by simp
  have d: "detectBundleState env spec w =
      (Inl (Error ''more than 2 or 0 fingerprints found in config map''), w1)"
    using assms fps by (simp add: detectBundleState_def Let_def)
  have rec: "Reconcile env spec w0 =
                   ((0, Some (Error ''more than 2 or 0 fingerprints found in config map'')), w1)
                 \<and> Phase (Status w1) = Some PhaseIdle
                 \<and> Trust (Status w1) = Trust (Status w0)
                 \<and> events (trace w1) = events (trace w0)
                 \<and> clusterWrites (trace w1) = clusterWrites (trace w0)"
    if s: "reconcileStart env w0 = (None, w)"
  proof -
    have w: "w = snd (reconcileStart env w0)" "fst (reconcileStart env w0) = None"
      using s by simp_all
    show ?thesis
      using reconcileStart_effect [of env w0] d s
      by (simp add: Reconcile_def orReturn_def r(1) tick_def w(1) [symmetric])
  qed
  show "State res = BundleStateOverlap
            \<and> detectBundleState env spec w =
                (Inl (Error ''more than 2 or 0 fingerprints found in config map''), w1)
            \<and> (reconcileStart env w0 = (None, w) \<longrightarrow>
                 Reconcile env spec w0 =
                   ((0, Some (Error ''more than 2 or 0 fingerprints found in config map'')), w1)
                 \<and> Phase (Status w1) = Some PhaseIdle
                 \<and> Trust (Status w1) = Trust (Status w0)
                 \<and> events (trace w1) = events (trace w0)
                 \<and> clusterWrites (trace w1) = clusterWrites (trace w0))"
    using st d rec by blast
next
  note r = LoadAndInspectCMBundle_result [OF assms(3)]
  assume a: "length (Certs res) \<le> 2 \<and> (\<forall>n. statusPatchErr env n = None)"
  have ok: "\<And>b c p v. fst (SetTrustInfo env b c p v) = None"
    unfolding SetTrustInfo_def using a by (simp add: Patch_no_error)
  from a r(2,3) consider fp where "Fps res = [fp]" | fp0 fp1 where "Fps res = [fp0, fp1]"
    by (cases "Fps res"; cases "tl (Fps res)"; cases "tl (tl (Fps res))") auto
  then show "fst (detectBundleState env spec w) = Inr (State res)"
  proof cases
    case 1
    then show ?thesis
      using assms ok [of "Some (State res)" "''sha256:'' @ fp" "''sha256:'' @ fp" w1]
      by (cases "State res")
         (auto simp add: detectBundleState_def Let_def split: prod.splits option.splits)
  next
    case 2
    then show ?thesis
      using assms ok [of "Some (State res)" "''sha256:'' @ fp1" "''sha256:'' @ fp0" w1]
      by (cases "State res")
         (auto simp add: detectBundleState_def Let_def split: prod.splits option.splits)
  qed
qed

theorem three_anchors_rejected_witness:
  "fst (Reconcile (bundleEnv ''CCC'') sampleSpec world0)
     = (0, Some (Error ''more than 2 or 0 fingerprints found in config map''))
   \<and> fst (detectBundleState (bundleEnv ''CKC'') sampleSpec world0) = Inr BundleStateOverlap"
proof -
  have trig: "OnTrustRootsConfigMapChange sampleSpec" "\<not> OnTrustAnchorSecretsDiff sampleSpec"
    by (simp_all add: sampleSpec_def)
  have writes: "\<And>b n. statusPatchErr (bundleEnv b) n = None"
    by (simp add: bundleEnv_def calmEnv_def)
  have cm: "\<And>b v. getConfigMap (bundleEnv b) (calls v) (LinkerdNamespace sampleSpec)
      (TrustRootsConfigMap sampleSpec) = ApiOK [configMapDataKey \<mapsto> b]"
    by (simp add: bundleEnv_def)
  have sp: "\<not> trimSpaceIsEmpty ''CCC''" "\<not> trimSpaceIsEmpty ''CKC''"
    by (simp_all add: trimSpaceIsEmpty_def)
  have p: "list_all (parses (bundleEnv ''CCC'')) (certificateBlocks (bundleEnv ''CCC'') ''CCC'')"
    "list_all (parses (bundleEnv ''CKC'')) (certificateBlocks (bundleEnv ''CKC'') ''CKC'')"
    by (simp_all add: bundleEnv_blocks) (simp_all add: parses_def bundleEnv_def)
  have c: "parsedCerts (bundleEnv ''CCC'') (certificateBlocks (bundleEnv ''CCC'') ''CCC'')
      = [\<lparr>Raw = ''C''\<rparr>, \<lparr>Raw = ''C''\<rparr>, \<lparr>Raw = ''C''\<rparr>]"
    "parsedCerts (bundleEnv ''CKC'') (certificateBlocks (bundleEnv ''CKC'') ''CKC'')
      = [\<lparr>Raw = ''C''\<rparr>, \<lparr>Raw = ''C''\<rparr>]"
    by (simp_all add: bundleEnv_blocks) (simp_all add: parsedCerts_def bundleEnv_def)
  let ?w = "snd (reconcileStart (bundleEnv ''CCC'') world0)"
  have s: "reconcileStart (bundleEnv ''CCC'') world0 = (None, ?w)"
    using reconcileStart_no_error [of "bundleEnv ''CCC''" world0, OF writes]
    by (metis prod.collapse)
  have k: "[configMapDataKey \<mapsto> ''CCC''] configMapDataKey = Some ''CCC''"
    "[configMapDataKey \<mapsto> ''CKC''] configMapDataKey = Some ''CKC''"
    by simp_all
  have ne: "certificateBlocks (bundleEnv ''CCC'') ''CCC'' \<noteq> []"
    "certificateBlocks (bundleEnv ''CKC'') ''CKC'' \<noteq> []"
    by (simp_all add: bundleEnv_blocks)
  have len: "length (certificateBlocks (bundleEnv ''CCC'') ''CCC'') = 3"
    "length (certificateBlocks (bundleEnv ''CKC'') ''CKC'') = 2"
    by (simp_all add: bundleEnv_blocks)
  note l3 = LoadAndInspectCMBundle_ok [OF cm [of "''CCC''" ?w] k(1) sp(1) p(1) ne(1)]
  note l2 = LoadAndInspectCMBundle_ok [OF cm [of "''CKC''" world0] k(2) sp(2) p(2) ne(2)]
  show ?thesis
    using three_anchors_rejected [OF trig l3, where ?w0.0 = world0, THEN conjunct1] s
      three_anchors_rejected [OF trig l2, where ?w0.0 = world0, THEN conjunct2] writes
    by (simp add: c len)
qed

subsection \<open>Retry limit: helper lemmas\<close>


























subsection \<open>Claim C8\<close>



subsection \<open>Claim C4\<close>

text \<open>
  C4. The plan builder sorts by name only the StatefulSets of a scope. Where the API
  lists the meshed workloads \<open>b\<close> and \<open>a\<close> of namespace \<open>ns1\<close> in this order, the
  plan of a Deployment scope holds them as listed, \<open>b\<close> before \<open>a\<close>, and so does the
  plan of a DaemonSet scope; the plan of a StatefulSet scope holds \<open>a\<close> before \<open>b\<close>.
\<close>

theorem only_statefulsets_are_sorted:
  "map (\<lambda>kind.
      case fst (SelectLinkerdDataPlane (listingEnv [''b'', ''a''])
                  (sampleSpec\<lparr>Targets := [\<lparr>KindType = kind, AllowedNamespaces = [''ns1''],
                     RolloutStrategy = [], APIGroup = [], ScopeKind = [], Version = [],
                     AnnotationBump = None\<rparr>]\<rparr>) world0) of
        Inl e \<Rightarrow> []
      | Inr result \<Rightarrow> map (\<lambda>item. (Kind item, Namespace item, Name item)) (Queue result))
     [KindDeployment, KindDaemonSet, KindStatefulSet]
   = [[(KindDeployment, ''ns1'', ''b''), (KindDeployment, ''ns1'', ''a'')],
      [(KindDaemonSet, ''ns1'', ''b''), (KindDaemonSet, ''ns1'', ''a'')],
      [(KindStatefulSet, ''ns1'', ''a''), (KindStatefulSet, ''ns1'', ''b'')]]"
  by (simp add: SelectLinkerdDataPlane_def sampleSpec_def listingEnv_def calmEnv_def
      hasAnnotationOnTemplate_def sampleWorkload_def typedItem_def tick_def world0_def Let_def)


end
